theory Spec2Isabelle
  imports Main "HOL-Library.Word"
begin

section \<open>The query console of \<open>frontend/script.js\<close>\<close>

text \<open>
  The script binds one click handler to the ask button.  The handler reads the question,
  issues one POST request and writes the outcome into three regions of the page.  The file
  holds two variants of the script; they differ in the request target (a fixed local address
  against the constant \<open>API_URL\<close>) and in the pending text, and in nothing else, so one
  definition of the handler, taking both as arguments, embeds both.

  What the script leaves to the platform is made explicit: the network's answer to the
  request is an argument of the handler, and so is the engine's wording of the errors it
  raises itself.
\<close>

subsection \<open>Strings\<close>

text \<open>
  A JavaScript string is a sequence of UTF-16 code units.  \<open>js\<close> embeds an ASCII literal.
\<close>

type_synonym jsstring = "16 word list"

definition js :: "string \<Rightarrow> jsstring" where
  "js s = map of_char s"

text \<open>\<open>String.prototype.trim\<close> removes white space and line terminators at both ends.\<close>

definition is_white_space :: "16 word \<Rightarrow> bool" where
  "is_white_space c \<longleftrightarrow>
     c = 0x0009 \<or> c = 0x000A \<or> c = 0x000B \<or> c = 0x000C \<or> c = 0x000D \<or> c = 0x0020 \<or>
     c = 0x00A0 \<or> c = 0x1680 \<or> (0x2000 \<le> c \<and> c \<le> 0x200A) \<or> c = 0x2028 \<or>
     c = 0x2029 \<or> c = 0x202F \<or> c = 0x205F \<or> c = 0x3000 \<or> c = 0xFEFF"

definition trim :: "jsstring \<Rightarrow> jsstring" where
  "trim s = rev (dropWhile is_white_space (rev (dropWhile is_white_space s)))"

text \<open>\<open>s.includes(t)\<close>: \<open>t\<close> occurs in \<open>s\<close> as a contiguous run.\<close>

fun starts_with :: "jsstring \<Rightarrow> jsstring \<Rightarrow> bool" where
  "starts_with s [] = True"
| "starts_with [] (d # t) = False"
| "starts_with (c # s) (d # t) = (c = d \<and> starts_with s t)"

fun includes_str :: "jsstring \<Rightarrow> jsstring \<Rightarrow> bool" where
  "includes_str [] t = (t = [])"
| "includes_str (c # s) t = (starts_with (c # s) t \<or> includes_str s t)"

text \<open>\<open>xs.join(sep)\<close> on a list of strings.\<close>

fun join :: "jsstring \<Rightarrow> jsstring list \<Rightarrow> jsstring" where
  "join sep [] = []"
| "join sep [x] = x"
| "join sep (x # y # ys) = x @ sep @ join sep (y # ys)"

text \<open>The decimal rendering of a non-negative integer.\<close>

fun digits :: "nat \<Rightarrow> jsstring" where
  "digits n = (if n < 10 then [of_nat (48 + n)] else digits (n div 10) @ [of_nat (48 + n mod 10)])"

subsection \<open>Values\<close>

text \<open>
  The values a parsed JSON body is made of, and two more that a property read can yield:
  \<open>undefined\<close>, and a member found on the prototype chain (a built-in function or a
  prototype object).

  A number is represented by the string JavaScript prints for it (\<open>2.5\<close>, \<open>-3\<close>,
  \<open>1e+21\<close>); that string determines the number up to the sign of zero, and the handler
  does nothing with a number but test it, compare it with zero and print it.  A built-in
  member is represented in the same way, by the string it converts to.  The members of an
  object are kept as the body lists them, in order and with repetitions; \<open>own_keys\<close> and
  \<open>own_property\<close> below give the object that \<open>JSON.parse\<close> builds from them.
\<close>

datatype jsval =
    JUndefined
  | JNull
  | JBool bool
  | JNum jsstring
  | JStr jsstring
  | JArr "jsval list"
  | JObj "(jsstring \<times> jsval) list"
  | JNative jsstring

fun truthy :: "jsval \<Rightarrow> bool" where
  "truthy JUndefined = False"
| "truthy JNull = False"
| "truthy (JBool b) = b"
| "truthy (JNum t) = (t \<noteq> js ''0'' \<and> t \<noteq> js ''NaN'')"
| "truthy (JStr s) = (s \<noteq> [])"
| "truthy (JArr xs) = True"
| "truthy (JObj ms) = True"
| "truthy (JNative t) = True"

text \<open>\<open>a || b\<close>\<close>

definition or_else :: "jsval \<Rightarrow> jsval \<Rightarrow> jsval" where
  "or_else a b = (if truthy a then a else b)"

subsection \<open>Property keys\<close>

text \<open>
  A key is an array index when it is the canonical decimal numeral of a number below
  \<open>2^32 - 1 = 4294967295\<close>.
\<close>

definition is_digit :: "16 word \<Rightarrow> bool" where
  "is_digit c \<longleftrightarrow> 48 \<le> c \<and> c \<le> 57"

definition decimal :: "jsstring \<Rightarrow> nat" where
  "decimal k = foldl (\<lambda>a c. 10 * a + (unat c - 48)) 0 k"

definition canonical_numeral :: "jsstring \<Rightarrow> nat option" where
  "canonical_numeral k =
     (if k \<noteq> [] \<and> list_all is_digit k \<and> (hd k \<noteq> 48 \<or> length k = 1)
      then Some (decimal k) else None)"

definition array_index :: "jsstring \<Rightarrow> nat option" where
  "array_index k =
     (case canonical_numeral k of
        Some n \<Rightarrow> if int n < 4294967295 then Some n else None
      | None \<Rightarrow> None)"

definition is_array_index :: "jsstring \<Rightarrow> bool" where
  "is_array_index k \<longleftrightarrow> array_index k \<noteq> None"

definition index_value :: "jsstring \<Rightarrow> nat" where
  "index_value k = (case array_index k of Some n \<Rightarrow> n | None \<Rightarrow> 0)"

text \<open>
  \<open>JSON.parse\<close> creates the properties of an object in the order of the body; a repeated
  key keeps its first place and takes its last value.  The own keys of an ordinary object
  are enumerated with the array indices first, in ascending numeric order, and the other
  keys after them, in the order of their creation.
\<close>

definition first_occurrences :: "'a list \<Rightarrow> 'a list" where
  "first_occurrences xs = rev (remdups (rev xs))"

definition backend_keys :: "(jsstring \<times> jsval) list \<Rightarrow> jsstring list" where
  "backend_keys ms = first_occurrences (map fst ms)"

definition index_keys :: "jsstring list \<Rightarrow> jsstring list" where
  "index_keys ks = sort_key index_value (filter is_array_index ks)"

definition named_keys :: "jsstring list \<Rightarrow> jsstring list" where
  "named_keys ks = filter (\<lambda>k. \<not> is_array_index k) ks"

definition own_keys :: "(jsstring \<times> jsval) list \<Rightarrow> jsstring list" where
  "own_keys ms = index_keys (backend_keys ms) @ named_keys (backend_keys ms)"

definition own_property :: "(jsstring \<times> jsval) list \<Rightarrow> jsstring \<Rightarrow> jsval option" where
  "own_property ms k = map_of (rev ms) k"

definition own_value :: "(jsstring \<times> jsval) list \<Rightarrow> jsstring \<Rightarrow> jsval" where
  "own_value ms k = (case own_property ms k of Some v \<Rightarrow> v | None \<Rightarrow> JUndefined)"

text \<open>
  The string-keyed members of \<open>Object.prototype\<close>, which every object of a parsed body
  inherits.
\<close>

definition Object_prototype_names :: "jsstring list" where
  "Object_prototype_names =
     [js ''constructor'', js ''hasOwnProperty'', js ''isPrototypeOf'', js ''propertyIsEnumerable'',
      js ''toLocaleString'', js ''toString'', js ''valueOf'', js ''__proto__'',
      js ''__defineGetter__'', js ''__defineSetter__'', js ''__lookupGetter__'',
      js ''__lookupSetter__'']"

subsection \<open>Errors and the engine\<close>

text \<open>
  An exception is a value.  \<open>Failure m\<close> is an error object whose \<open>message\<close> is \<open>m\<close>: the
  one the handler throws itself, and the ones \<open>fetch\<close> and \<open>res.json()\<close> reject with.
  \<open>TypeError op\<close> is raised by the engine at the operation \<open>op\<close>; the engine words its message.
\<close>

datatype failing_op =
    ReadProperty jsval jsstring
  | ObjectKeys jsval
  | CallMap jsval
  | ToPrimitive jsval

datatype js_error =
    Failure jsstring
  | TypeError failing_op

text \<open>
  What is the engine's own: its wording of a \<open>TypeError\<close>; whether a string converts to a
  number above zero (a floating-point conversion, needed only when \<open>rows.length\<close> is not a
  number); the string each member of \<open>Object.prototype\<close> converts to; and what the prototype
  chain of a string, an array, a number, a boolean or a built-in yields for a name, if
  anything.
\<close>

record engine =
  type_error_message :: "failing_op \<Rightarrow> jsstring"
  string_gt_zero :: "jsstring \<Rightarrow> bool"
  object_prototype_text :: "jsstring \<Rightarrow> jsstring"
  builtin_member :: "jsval \<Rightarrow> jsstring \<Rightarrow> jsval option"

fun message :: "engine \<Rightarrow> js_error \<Rightarrow> jsstring" where
  "message e (Failure m) = m"
| "message e (TypeError op) = type_error_message e op"

text \<open>
  Conversion to a string, as a template literal and the \<open>textContent\<close> setter perform it.
  An array joins its elements with commas, \<open>null\<close> and \<open>undefined\<close> elements giving the
  empty string.  An object of a parsed body converts through the inherited \<open>toString\<close>,
  unless it has an own property of that name: that one is no function, the inherited
  \<open>valueOf\<close> returns the object itself, and the conversion throws.
\<close>

fun to_string :: "jsval \<Rightarrow> js_error + jsstring"
  and to_strings :: "jsval list \<Rightarrow> js_error + jsstring list" where
  "to_string JUndefined = Inr (js ''undefined'')"
| "to_string JNull = Inr (js ''null'')"
| "to_string (JBool b) = Inr (if b then js ''true'' else js ''false'')"
| "to_string (JNum t) = Inr t"
| "to_string (JStr s) = Inr s"
| "to_string (JArr xs) =
     (case to_strings xs of Inl err \<Rightarrow> Inl err | Inr ts \<Rightarrow> Inr (join (js '','') ts))"
| "to_string (JObj ms) =
     (if own_property ms (js ''toString'') = None then Inr (js ''[object Object]'')
      else Inl (TypeError (ToPrimitive (JObj ms))))"
| "to_string (JNative t) = Inr t"
| "to_strings [] = Inr []"
| "to_strings (x # xs) =
     (case (if x = JNull \<or> x = JUndefined then Inr [] else to_string x) of
        Inl err \<Rightarrow> Inl err
      | Inr t \<Rightarrow> (case to_strings xs of Inl err \<Rightarrow> Inl err | Inr ts \<Rightarrow> Inr (t # ts)))"

text \<open>What the prototype chain yields for a name that is not an own property.\<close>

fun inherited :: "engine \<Rightarrow> jsval \<Rightarrow> jsstring \<Rightarrow> jsval option" where
  "inherited e (JObj ms) k =
     (if k \<in> set Object_prototype_names then Some (JNative (object_prototype_text e k)) else None)"
| "inherited e v k = builtin_member e v k"

definition inherited_value :: "engine \<Rightarrow> jsval \<Rightarrow> jsstring \<Rightarrow> jsval" where
  "inherited_value e v k = (case inherited e v k of Some m \<Rightarrow> m | None \<Rightarrow> JUndefined)"

text \<open>
  \<open>v[k]\<close>: a read of \<open>null\<close> or \<open>undefined\<close> throws; an own property is found first, then
  the prototype chain; a property found nowhere is \<open>undefined\<close>.
\<close>

fun read :: "engine \<Rightarrow> jsval \<Rightarrow> jsstring \<Rightarrow> js_error + jsval" where
  "read e JUndefined k = Inl (TypeError (ReadProperty JUndefined k))"
| "read e JNull k = Inl (TypeError (ReadProperty JNull k))"
| "read e (JStr s) k =
     Inr (if k = js ''length'' then JNum (digits (length s))
          else case canonical_numeral k of
                 Some i \<Rightarrow> if i < length s then JStr [s ! i] else inherited_value e (JStr s) k
               | None \<Rightarrow> inherited_value e (JStr s) k)"
| "read e (JArr xs) k =
     Inr (if k = js ''length'' then JNum (digits (length xs))
          else case array_index k of
                 Some i \<Rightarrow> if i < length xs then xs ! i else inherited_value e (JArr xs) k
               | None \<Rightarrow> inherited_value e (JArr xs) k)"
| "read e (JObj ms) k =
     Inr (case own_property ms k of Some v \<Rightarrow> v | None \<Rightarrow> inherited_value e (JObj ms) k)"
| "read e v k = Inr (inherited_value e v k)"

text \<open>\<open>Object.keys(v)\<close>\<close>

fun Object_keys :: "jsval \<Rightarrow> js_error + jsstring list" where
  "Object_keys JUndefined = Inl (TypeError (ObjectKeys JUndefined))"
| "Object_keys JNull = Inl (TypeError (ObjectKeys JNull))"
| "Object_keys (JStr s) = Inr (map digits [0..<length s])"
| "Object_keys (JArr xs) = Inr (map digits [0..<length xs])"
| "Object_keys (JObj ms) = Inr (own_keys ms)"
| "Object_keys v = Inr []"

text \<open>
  \<open>v > 0\<close>.  An array or an object is first converted to a primitive, which for an object
  with an own \<open>toString\<close> throws and for any other object gives a string that is no number.
\<close>

fun gt_zero :: "engine \<Rightarrow> jsval \<Rightarrow> js_error + bool" where
  "gt_zero e JUndefined = Inr False"
| "gt_zero e JNull = Inr False"
| "gt_zero e (JBool b) = Inr b"
| "gt_zero e (JNum t) = Inr (t \<noteq> js ''0'' \<and> t \<noteq> js ''NaN'' \<and> \<not> starts_with t (js ''-''))"
| "gt_zero e (JStr s) = Inr (string_gt_zero e s)"
| "gt_zero e (JArr xs) =
     (case to_string (JArr xs) of Inl err \<Rightarrow> Inl err | Inr s \<Rightarrow> Inr (string_gt_zero e s))"
| "gt_zero e (JObj ms) =
     (case to_string (JObj ms) of Inl err \<Rightarrow> Inl err | Inr s \<Rightarrow> Inr False)"
| "gt_zero e (JNative t) = Inr (string_gt_zero e t)"

text \<open>\<open>xs.map(f)\<close> where \<open>f\<close> may throw: the first exception ends the traversal.\<close>

fun map_throwing :: "('a \<Rightarrow> js_error + 'b) \<Rightarrow> 'a list \<Rightarrow> js_error + 'b list" where
  "map_throwing f [] = Inr []"
| "map_throwing f (x # xs) =
     (case f x of
        Inl err \<Rightarrow> Inl err
      | Inr y \<Rightarrow> (case map_throwing f xs of Inl err \<Rightarrow> Inl err | Inr ys \<Rightarrow> Inr (y # ys)))"

subsection \<open>The page, the request and the response\<close>

text \<open>
  The four things the handler writes: \<open>output.style.display\<close>, \<open>answerEl.textContent\<close>,
  \<open>sqlEl.textContent\<close> and \<open>tableEl.innerHTML\<close> (the markup as assigned; nothing reads it
  back).  The elements themselves are taken to exist.
\<close>

record page =
  output_display :: jsstring
  answer_textContent :: jsstring
  sql_textContent :: jsstring
  table_innerHTML :: jsstring

text \<open>The request handed to \<open>fetch\<close>; \<open>req_body\<close> is the value given to \<open>JSON.stringify\<close>.\<close>

record request =
  req_url :: jsstring
  req_method :: jsstring
  req_headers :: "(jsstring \<times> jsstring) list"
  req_body :: jsval

text \<open>
  A response: its status, and how \<open>res.json()\<close> settles, with an exception when the body is
  not JSON.  \<open>res.ok\<close> holds for the statuses 200 to 299.
\<close>

record response =
  status :: nat
  json :: "js_error + jsval"

definition ok :: "response \<Rightarrow> bool" where
  "ok res \<longleftrightarrow> 200 \<le> status res \<and> status res \<le> 299"

datatype fetch_result =
    Rejected js_error
  | Fulfilled response

text \<open>What an activation does besides writing the page, in order.\<close>

datatype effect =
    Alert jsstring
  | Fetch request
  | ConsoleError js_error

subsection \<open>The endpoint\<close>

definition API_URL :: "jsstring \<Rightarrow> jsstring" where
  "API_URL origin =
     (if includes_str origin (js ''onrender.com'') then origin @ js ''/ask''
      else js ''http://127.0.0.1:8000/ask'')"

subsection \<open>The click handler\<close>

text \<open>
  The message of the error thrown on a response that is not \<open>ok\<close>.  Whatever is thrown
  while the body is read, parsed and inspected is swallowed, and leaves the message at the
  status; so is a conversion of the field that throws.
\<close>

definition errMsg :: "engine \<Rightarrow> response \<Rightarrow> jsstring" where
  "errMsg e res =
     (let http = js ''HTTP '' @ digits (status res) in
      case json res of
        Inl err \<Rightarrow> http
      | Inr errJson \<Rightarrow>
          if \<not> truthy errJson then http
          else (case read e errJson (js ''detail'') of
                  Inl err \<Rightarrow> http
                | Inr detail \<Rightarrow>
                    if truthy detail
                    then (case to_string detail of
                            Inl err \<Rightarrow> http
                          | Inr text \<Rightarrow> http @ js '' - '' @ text)
                    else (case read e errJson (js ''error'') of
                            Inl err \<Rightarrow> http
                          | Inr error \<Rightarrow>
                              if truthy error
                              then (case to_string error of
                                      Inl err \<Rightarrow> http
                                    | Inr text \<Rightarrow> http @ js '' - '' @ text)
                              else http)))"

text \<open>The markup of the table, for \<open>data.rows\<close> truthy and of length above zero.\<close>

definition th :: "jsstring \<Rightarrow> jsstring" where
  "th h = js ''<th>'' @ h @ js ''</th>''"

definition td :: "jsval \<Rightarrow> js_error + jsstring" where
  "td v = (case to_string v of Inl err \<Rightarrow> Inl err | Inr text \<Rightarrow> Inr (js ''<td>'' @ text @ js ''</td>''))"

definition tr :: "engine \<Rightarrow> jsstring list \<Rightarrow> jsval \<Rightarrow> js_error + jsstring" where
  "tr e headers r =
     (case map_throwing (\<lambda>h. case read e r h of Inl err \<Rightarrow> Inl err | Inr v \<Rightarrow> td v) headers of
        Inl err \<Rightarrow> Inl err
      | Inr cells \<Rightarrow> Inr (js ''<tr>'' @ join [] cells @ js ''</tr>''))"

definition indent :: "nat \<Rightarrow> jsstring" where
  "indent n = 0x000A # replicate n 0x0020"

definition table_template :: "jsstring \<Rightarrow> jsstring \<Rightarrow> jsstring" where
  "table_template thead tbody =
     indent 8 @ js ''<table>'' @
     indent 10 @ js ''<thead><tr>'' @ thead @ js ''</tr></thead>'' @
     indent 10 @ js ''<tbody>'' @
     indent 12 @ tbody @
     indent 10 @ js ''</tbody>'' @
     indent 8 @ js ''</table>'' @
     indent 6"

text \<open>Only an array has a \<open>map\<close> that can be called.\<close>

definition tableHTML :: "engine \<Rightarrow> jsval \<Rightarrow> js_error + jsstring" where
  "tableHTML e rows =
     (case read e rows (js ''0'') of
        Inl err \<Rightarrow> Inl err
      | Inr first \<Rightarrow>
          (case Object_keys first of
             Inl err \<Rightarrow> Inl err
           | Inr headers \<Rightarrow>
               (case rows of
                  JArr rs \<Rightarrow>
                    (case map_throwing (tr e headers) rs of
                       Inl err \<Rightarrow> Inl err
                     | Inr trs \<Rightarrow> Inr (table_template (join [] (map th headers)) (join [] trs)))
                | _ \<Rightarrow> Inl (TypeError (CallMap rows)))))"

text \<open>
  The \<open>try\<close> block after a parsed body: the page as the block leaves it, and the exception
  that ended it, if one did.  An assignment to \<open>textContent\<close> converts its value first, and
  writes nothing when the conversion throws.
\<close>

definition display_response :: "engine \<Rightarrow> jsval \<Rightarrow> page \<Rightarrow> page \<times> js_error option" where
  "display_response e data p =
     (case read e data (js ''answer'') of
        Inl err \<Rightarrow> (p, Some err)
      | Inr answer \<Rightarrow>
          (case to_string (or_else answer (JStr (js ''(no summary)''))) of
             Inl err \<Rightarrow> (p, Some err)
           | Inr answer_text \<Rightarrow>
               let p1 = p\<lparr>answer_textContent := answer_text\<rparr> in
               (case read e data (js ''sql'') of
                  Inl err \<Rightarrow> (p1, Some err)
                | Inr sql \<Rightarrow>
                    (case to_string (or_else sql (JStr (js ''(no SQL returned)''))) of
                       Inl err \<Rightarrow> (p1, Some err)
                     | Inr sql_text \<Rightarrow>
                         let p2 = p1\<lparr>sql_textContent := sql_text\<rparr> in
                         (case read e data (js ''rows'') of
                            Inl err \<Rightarrow> (p2, Some err)
                          | Inr rows \<Rightarrow>
                              if \<not> truthy rows
                              then (p2\<lparr>table_innerHTML := js ''<p>No data found.</p>''\<rparr>, None)
                              else (case read e rows (js ''length'') of
                                      Inl err \<Rightarrow> (p2, Some err)
                                    | Inr len \<Rightarrow>
                                        (case gt_zero e len of
                                           Inl err \<Rightarrow> (p2, Some err)
                                         | Inr True \<Rightarrow>
                                             (case tableHTML e rows of
                                                Inl err \<Rightarrow> (p2, Some err)
                                              | Inr html \<Rightarrow> (p2\<lparr>table_innerHTML := html\<rparr>, None))
                                         | Inr False \<Rightarrow>
                                             (p2\<lparr>table_innerHTML := js ''<p>No data found.</p>''\<rparr>,
                                              None))))))))"

definition try_block :: "engine \<Rightarrow> fetch_result \<Rightarrow> page \<Rightarrow> page \<times> js_error option" where
  "try_block e settled p =
     (case settled of
        Rejected err \<Rightarrow> (p, Some err)
      | Fulfilled res \<Rightarrow>
          if \<not> ok res then (p, Some (Failure (errMsg e res)))
          else (case json res of
                  Inl err \<Rightarrow> (p, Some err)
                | Inr data \<Rightarrow> display_response e data p))"

definition catch_block :: "engine \<Rightarrow> js_error \<Rightarrow> page \<Rightarrow> page \<times> effect list" where
  "catch_block e err p =
     (p\<lparr>answer_textContent :=
          [0x274C, 0x0020] @
          (if message e err \<noteq> [] then message e err else js ''Error connecting to backend.'')\<rparr>,
      [ConsoleError err])"

text \<open>
  An activation runs up to the call of \<open>fetch\<close> and is suspended there, or has returned
  before it.  It is resumed with the settled request.
\<close>

datatype activation =
    Returned page "effect list"
  | Awaiting page request

definition show_pending :: "jsstring \<Rightarrow> page \<Rightarrow> page" where
  "show_pending pending p =
     p\<lparr>output_display := js ''block'', answer_textContent := pending,
       sql_textContent := [], table_innerHTML := []\<rparr>"

definition ask_request :: "jsstring \<Rightarrow> jsstring \<Rightarrow> request" where
  "ask_request target question =
     \<lparr>req_url = target, req_method = js ''POST'',
      req_headers = [(js ''Content-Type'', js ''application/json'')],
      req_body = JObj [(js ''question'', JStr question)]\<rparr>"

definition askBtn_click_begin :: "jsstring \<Rightarrow> jsstring \<Rightarrow> jsstring \<Rightarrow> page \<Rightarrow> activation" where
  "askBtn_click_begin target pending value p =
     (let question = trim value in
      if question = [] then Returned p [Alert (js ''Please enter a question first!'')]
      else Awaiting (show_pending pending p) (ask_request target question))"

definition askBtn_click_resume :: "engine \<Rightarrow> fetch_result \<Rightarrow> page \<Rightarrow> page \<times> effect list" where
  "askBtn_click_resume e settled p =
     (case try_block e settled p of
        (p', None) \<Rightarrow> (p', [])
      | (p', Some err) \<Rightarrow> catch_block e err p')"

text \<open>
  An activation with nothing else running between its suspension and its resumption
  (overlapping activations are not modelled); \<open>network\<close> settles the request.
\<close>

definition askBtn_click ::
  "engine \<Rightarrow> jsstring \<Rightarrow> jsstring \<Rightarrow> (request \<Rightarrow> fetch_result) \<Rightarrow> jsstring \<Rightarrow> page \<Rightarrow> page \<times> effect list" where
  "askBtn_click e target pending network value p =
     (case askBtn_click_begin target pending value p of
        Returned p' effects \<Rightarrow> (p', effects)
      | Awaiting p' req \<Rightarrow>
          (case askBtn_click_resume e (network req) p' of
             (p'', effects) \<Rightarrow> (p'', Fetch req # effects)))"

text \<open>The first variant of the script, and the second, loaded at a page origin.\<close>

definition script_fixed ::
  "engine \<Rightarrow> (request \<Rightarrow> fetch_result) \<Rightarrow> jsstring \<Rightarrow> page \<Rightarrow> page \<times> effect list" where
  "script_fixed e = askBtn_click e (js ''http://127.0.0.1:8000/ask'') (js ''Thinking...'')"

definition script ::
  "engine \<Rightarrow> jsstring \<Rightarrow> (request \<Rightarrow> fetch_result) \<Rightarrow> jsstring \<Rightarrow> page \<Rightarrow> page \<times> effect list" where
  "script e origin = askBtn_click e (API_URL origin) (0x23F3 # js '' Thinking...'')"

text \<open>
  The activations of one page load, each completed before the next begins.  The constant
  \<open>API_URL\<close> is evaluated once, when the script is loaded, from the origin of the page.
\<close>

fun activations ::
  "engine \<Rightarrow> jsstring \<Rightarrow> jsstring \<Rightarrow> (jsstring \<times> (request \<Rightarrow> fetch_result)) list \<Rightarrow> page \<Rightarrow> page \<times> effect list" where
  "activations e target pending [] p = (p, [])"
| "activations e target pending ((value, network) # clicks) p =
     (case askBtn_click e target pending network value p of
        (p', effects) \<Rightarrow>
          (case activations e target pending clicks p' of
             (p'', effects') \<Rightarrow> (p'', effects @ effects')))"

definition page_lifetime ::
  "engine \<Rightarrow> jsstring \<Rightarrow> (jsstring \<times> (request \<Rightarrow> fetch_result)) list \<Rightarrow> page \<Rightarrow> page \<times> effect list" where
  "page_lifetime e origin = activations e (API_URL origin) (0x23F3 # js '' Thinking...'')"

subsection \<open>The table of the specification\<close>

text \<open>
  The table described cell by cell, to be compared with the markup the handler builds: a
  header row over the given column names, then one row per record, each cell the text of
  the record's value under the column's name.  The specification has a missing key render
  as \<open>undefined\<close>; that is so only for a name that \<open>Object.prototype\<close> has not, and for
  one it has the cell is the text of that member.  The frame around the rows is the one of
  \<open>table_template\<close>.  \<open>converts\<close> tells the values that have a text.
\<close>

definition converts :: "jsval \<Rightarrow> bool" where
  "converts v = (case to_string v of Inl err \<Rightarrow> False | Inr text \<Rightarrow> True)"

definition spec_text :: "jsval \<Rightarrow> jsstring" where
  "spec_text v = (case to_string v of Inl err \<Rightarrow> [] | Inr text \<Rightarrow> text)"

primrec spec_header_cells :: "jsstring list \<Rightarrow> jsstring" where
  "spec_header_cells [] = []"
| "spec_header_cells (h # hs) = js ''<th>'' @ h @ js ''</th>'' @ spec_header_cells hs"

definition spec_cell :: "engine \<Rightarrow> (jsstring \<times> jsval) list \<Rightarrow> jsstring \<Rightarrow> jsstring" where
  "spec_cell e record h =
     (case own_property record h of
        Some v \<Rightarrow> spec_text v
      | None \<Rightarrow>
          if h \<in> set Object_prototype_names then object_prototype_text e h else js ''undefined'')"

primrec spec_data_cells :: "engine \<Rightarrow> (jsstring \<times> jsval) list \<Rightarrow> jsstring list \<Rightarrow> jsstring" where
  "spec_data_cells e record [] = []"
| "spec_data_cells e record (h # hs) =
     js ''<td>'' @ spec_cell e record h @ js ''</td>'' @ spec_data_cells e record hs"

primrec spec_data_rows :: "engine \<Rightarrow> jsstring list \<Rightarrow> (jsstring \<times> jsval) list list \<Rightarrow> jsstring" where
  "spec_data_rows e hs [] = []"
| "spec_data_rows e hs (record # records) =
     js ''<tr>'' @ spec_data_cells e record hs @ js ''</tr>'' @ spec_data_rows e hs records"

subsection \<open>Sample inputs\<close>

text \<open>
  An engine with the wording of a common one.  Its \<open>string_gt_zero\<close> knows decimal numerals
  only, and of the prototypes of strings, arrays, numbers, booleans and built-ins it knows
  nothing; no example below reaches either.  Then a page that shows an earlier answer, two
  origins, two questions, and ways the network may answer.
\<close>

definition sample_engine :: engine where
  "sample_engine =
     \<lparr>type_error_message =
        (\<lambda>op. case op of
                ReadProperty v k \<Rightarrow>
                  js ''Cannot read properties of '' @
                  (case v of JNull \<Rightarrow> js ''null'' | _ \<Rightarrow> js ''undefined'') @
                  js '' (reading '' @ [0x0027] @ k @ [0x0027] @ js '')''
              | ObjectKeys v \<Rightarrow> js ''Cannot convert undefined or null to object''
              | CallMap v \<Rightarrow> js ''data.rows.map is not a function''
              | ToPrimitive v \<Rightarrow> js ''Cannot convert object to primitive value''),
      string_gt_zero = (\<lambda>s. case canonical_numeral (trim s) of Some n \<Rightarrow> 0 < n | None \<Rightarrow> False),
      object_prototype_text =
        (\<lambda>k. if k = js ''__proto__'' then js ''[object Object]''
             else if k = js ''constructor'' then js ''function Object() { [native code] }''
             else js ''function '' @ k @ js ''() { [native code] }''),
      builtin_member = (\<lambda>v k. None)\<rparr>"

definition sample_page :: page where
  "sample_page =
     \<lparr>output_display = js ''none'', answer_textContent = js ''an earlier answer'',
      sql_textContent = js ''SELECT 1'', table_innerHTML = js ''<p>No data found.</p>''\<rparr>"

definition render_origin :: jsstring where
  "render_origin = js ''https://crop-dcdl.onrender.com''"

definition local_origin :: jsstring where
  "local_origin = js ''http://localhost:5500''"

definition sample_question :: jsstring where
  "sample_question = js '' Which state grows the most rice? ''"

definition blank_question :: jsstring where
  "blank_question = [0x0020, 0x0009, 0x00A0, 0x000A]"

definition network_down :: "request \<Rightarrow> fetch_result" where
  "network_down req = Rejected (Failure (js ''Failed to fetch''))"

definition replies :: "response \<Rightarrow> request \<Rightarrow> fetch_result" where
  "replies res req = Fulfilled res"

definition db_down :: response where
  "db_down = \<lparr>status = 500, json = Inr (JObj [(js ''detail'', JStr (js ''db down''))])\<rparr>"

definition not_json :: response where
  "not_json = \<lparr>status = 200, json = Inl (Failure (js ''Unexpected token < in JSON at position 0''))\<rparr>"

definition network_silent :: "request \<Rightarrow> fetch_result" where
  "network_silent req = Rejected (Failure [])"

definition not_found_page :: response where
  "not_found_page = \<lparr>status = 404, json = Inl (Failure (js ''Unexpected token < in JSON at position 0''))\<rparr>"

definition spec_example :: response where
  "spec_example =
     \<lparr>status = 200,
      json = Inr (JObj [(js ''answer'', JStr (js ''A'')), (js ''sql'', JStr (js ''S'')),
                        (js ''rows'', JArr [JObj [(js ''x'', JStr (js ''1'')), (js ''y'', JStr (js ''2''))]])])\<rparr>"

definition year_columns :: response where
  "year_columns =
     \<lparr>status = 200,
      json = Inr (JObj [(js ''rows'',
                         JArr [JObj [(js ''state'', JStr (js ''Punjab'')), (js ''2020'', JStr (js ''11''))]])])\<rparr>"

definition ragged_rows :: response where
  "ragged_rows =
     \<lparr>status = 200,
      json = Inr (JObj [(js ''rows'',
                         JArr [JObj [(js ''x'', JStr (js ''1'')), (js ''y'', JStr (js ''2''))],
                               JObj [(js ''x'', JStr (js ''3''))]])])\<rparr>"

definition empty_rows :: response where
  "empty_rows = \<lparr>status = 200, json = Inr (JObj [(js ''answer'', JStr (js ''A'')), (js ''rows'', JArr [])])\<rparr>"




definition inherited_column :: response where
  "inherited_column =
     \<lparr>status = 200,
      json = Inr (JObj [(js ''rows'',
                         JArr [JObj [(js ''constructor'', JStr (js ''c'')), (js ''n'', JStr (js ''1''))],
                               JObj [(js ''n'', JStr (js ''2''))]])])\<rparr>"



definition detail_without_text :: response where
  "detail_without_text =
     \<lparr>status = 500, json = Inr (JObj [(js ''detail'', JObj [(js ''toString'', JNum (js ''1''))])])\<rparr>"




definition cell_without_text :: response where
  "cell_without_text =
     \<lparr>status = 200,
      json = Inr (JObj [(js ''rows'', JArr [JObj [(js ''a'', JObj [(js ''toString'', JNum (js ''1''))])]])])\<rparr>"

section \<open>Properties\<close>

subsection \<open>Strings and keys\<close>

declare digits.simps [simp del]

lemma starts_with_append: "starts_with (t @ s) t"
  by (induction t) auto

lemma includes_str_nil: "includes_str s []"
  by (cases s) auto

lemma includes_str_append: "includes_str (a @ t @ b) t"
proof (induction a)
  case Nil
  show ?case
  proof (cases "t @ b")
    case Nil
    then show ?thesis by simp
  next
    case (Cons c s)
    with starts_with_append [of t b] show ?thesis by simp
  qed
next
  case (Cons c a)
  then show ?case by simp
qed

lemma join_nil: "join [] xs = concat xs"
  by (induction "[] :: jsstring" xs rule: join.induct) auto

lemma map_throwing_total:
  "(\<And>x. x \<in> set xs \<Longrightarrow> f x = Inr (g x)) \<Longrightarrow> map_throwing f xs = Inr (map g xs)"
  by (induction xs) auto

lemma key_detail: "js ''detail'' \<noteq> js ''length''" "canonical_numeral (js ''detail'') = None"
  "array_index (js ''detail'') = None"
  by (simp_all add: js_def canonical_numeral_def array_index_def is_digit_def)

lemma key_error: "js ''error'' \<noteq> js ''length''" "canonical_numeral (js ''error'') = None"
  "array_index (js ''error'') = None"
  by (simp_all add: js_def canonical_numeral_def array_index_def is_digit_def)

lemma key_zero: "js ''0'' \<noteq> js ''length''" "array_index (js ''0'') = Some 0"
  by (simp_all add: js_def canonical_numeral_def array_index_def is_digit_def decimal_def)

lemma set_first_occurrences: "set (first_occurrences xs) = set xs"
  by (simp add: first_occurrences_def)

lemma distinct_first_occurrences: "distinct (first_occurrences xs)"
  by (simp add: first_occurrences_def)

lemma first_occurrences_distinct: "distinct xs \<Longrightarrow> first_occurrences xs = xs"
  by (simp add: first_occurrences_def distinct_remdups_id)

lemma set_own_keys: "set (own_keys ms) = fst ` set ms"
  by (auto simp: own_keys_def index_keys_def named_keys_def backend_keys_def set_first_occurrences)

lemma distinct_own_keys: "distinct (own_keys ms)"
  by (auto simp: own_keys_def index_keys_def named_keys_def backend_keys_def
      distinct_first_occurrences)

lemma sorted_index_keys: "sorted (map index_value (index_keys ks))"
  by (simp add: index_keys_def)

lemma own_keys_no_index:
  assumes "\<forall>k \<in> fst ` set ms. \<not> is_array_index k"
  shows "own_keys ms = backend_keys ms"
proof -
  have "\<forall>k \<in> set (backend_keys ms). \<not> is_array_index k"
    using assms by (simp add: backend_keys_def set_first_occurrences)
  then have "filter is_array_index (backend_keys ms) = []"
    and "filter (\<lambda>k. \<not> is_array_index k) (backend_keys ms) = backend_keys ms"
    by (simp_all add: filter_empty_conv filter_id_conv)
  then show ?thesis by (simp add: own_keys_def index_keys_def named_keys_def)
qed

lemma names_not_inherited:
  "js ''answer'' \<notin> set Object_prototype_names" "js ''sql'' \<notin> set Object_prototype_names"
  "js ''rows'' \<notin> set Object_prototype_names" "js ''detail'' \<notin> set Object_prototype_names"
  "js ''error'' \<notin> set Object_prototype_names" "js ''length'' \<notin> set Object_prototype_names"
  "js ''0'' \<notin> set Object_prototype_names"
  by (simp_all add: Object_prototype_names_def js_def)

lemma read_record:
  "k \<notin> set Object_prototype_names \<Longrightarrow> read e (JObj ms) k = Inr (own_value ms k)"
  by (simp add: own_value_def inherited_value_def split: option.splits)

lemma own_property_in_values: "own_property ms k = Some v \<Longrightarrow> v \<in> snd ` set ms"
proof -
  assume "own_property ms k = Some v"
  then have "(k, v) \<in> set (rev ms)" unfolding own_property_def by (rule map_of_SomeD)
  then show ?thesis by force
qed

lemma digit_cases:
  assumes "n < 10"
  shows "n \<in> set [0..<10]"
  using assms by simp

lemma last_digit:
  assumes "n < 10"
  shows "is_digit (48 + of_nat n)"
proof -
  have "\<forall>m \<in> set [0..<10]. is_digit (48 + of_nat m)"
    by (simp add: upt_rec is_digit_def)
  with digit_cases [OF assms] show ?thesis by blast
qed

lemma last_digit_zero:
  assumes "n < 10"
  shows "(of_nat n :: 16 word) = 0 \<longleftrightarrow> n = 0"
proof -
  have "\<forall>m \<in> set [0..<10]. (of_nat m :: 16 word) = 0 \<longleftrightarrow> m = 0"
    by (simp add: upt_rec)
  with digit_cases [OF assms] show ?thesis by blast
qed

lemma digits_nonempty: "digits n \<noteq> []"
  by (subst digits.simps) simp

lemma digits_all_digits: "list_all is_digit (digits n)"
proof (induction n rule: digits.induct)
  case (1 n)
  show ?case
  proof (cases "n < 10")
    case True
    then show ?thesis by (subst digits.simps) (simp add: last_digit)
  next
    case False
    have "n mod 10 < 10" by simp
    with False 1 show ?thesis by (subst digits.simps) (simp add: last_digit)
  qed
qed

lemma digits_zero: "digits n = js ''0'' \<longleftrightarrow> n = 0"
proof (cases "n < 10")
  case True
  then show ?thesis by (subst digits.simps) (simp add: js_def last_digit_zero)
next
  case False
  then have "length (digits n) \<ge> 2"
    using digits_nonempty [of "n div 10"]
    by (subst digits.simps) (cases "digits (n div 10)", auto)
  with False show ?thesis by (auto simp: js_def)
qed

lemma gt_zero_length: "gt_zero e (JNum (digits n)) = Inr (0 < n)"
proof -
  have "digits n \<noteq> js ''NaN''"
    using digits_all_digits [of n] by (auto simp: js_def is_digit_def)
  moreover have "\<not> starts_with (digits n) (js ''-'')"
    using digits_all_digits [of n] digits_nonempty [of n]
    by (cases "digits n") (auto simp: js_def is_digit_def)
  ultimately show ?thesis by (simp add: digits_zero)
qed

subsection \<open>The phases of the handler\<close>

lemma begin_empty:
  "trim value = [] \<Longrightarrow>
   askBtn_click_begin target pending value p = Returned p [Alert (js ''Please enter a question first!'')]"
  by (simp add: askBtn_click_begin_def)

lemma begin_nonempty:
  "trim value \<noteq> [] \<Longrightarrow>
   askBtn_click_begin target pending value p =
     Awaiting (show_pending pending p) (ask_request target (trim value))"
  by (simp add: askBtn_click_begin_def)

lemma click_empty:
  "trim value = [] \<Longrightarrow>
   askBtn_click e target pending network value p = (p, [Alert (js ''Please enter a question first!'')])"
  by (simp add: askBtn_click_def begin_empty)

lemma click_nonempty:
  "trim value \<noteq> [] \<Longrightarrow>
   askBtn_click e target pending network value p =
     (case askBtn_click_resume e (network (ask_request target (trim value))) (show_pending pending p) of
        (p'', effects) \<Rightarrow> (p'', Fetch (ask_request target (trim value)) # effects))"
  by (simp add: askBtn_click_def begin_nonempty)

lemma resume_rejected:
  "askBtn_click_resume e (Rejected err) p = catch_block e err p"
  by (simp add: askBtn_click_resume_def try_block_def)

lemma resume_not_ok:
  "\<not> ok res \<Longrightarrow> askBtn_click_resume e (Fulfilled res) p = catch_block e (Failure (errMsg e res)) p"
  by (simp add: askBtn_click_resume_def try_block_def)

lemma resume_unparsable:
  "ok res \<Longrightarrow> json res = Inl err \<Longrightarrow> askBtn_click_resume e (Fulfilled res) p = catch_block e err p"
  by (simp add: askBtn_click_resume_def try_block_def)

lemma resume_parsed:
  "ok res \<Longrightarrow> json res = Inr data \<Longrightarrow>
   askBtn_click_resume e (Fulfilled res) p =
     (case display_response e data p of
        (p', None) \<Rightarrow> (p', [])
      | (p', Some err) \<Rightarrow> catch_block e err p')"
  by (simp add: askBtn_click_resume_def try_block_def)

lemma resume_effects:
  "snd (askBtn_click_resume e settled p) = [] \<or>
   (\<exists>err. snd (askBtn_click_resume e settled p) = [ConsoleError err])"
  by (cases "try_block e settled p")
     (auto simp: askBtn_click_resume_def catch_block_def split: option.splits)

lemma click_fetch_target:
  assumes "Fetch r \<in> set (snd (askBtn_click e target pending network value p))"
  shows "req_url r = target"
proof (cases "trim value = []")
  case True
  with assms show ?thesis by (simp add: click_empty)
next
  case False
  from resume_effects [of e "network (ask_request target (trim value))" "show_pending pending p"]
    assms False show ?thesis
    by (auto simp: click_nonempty ask_request_def split: prod.splits)
qed

lemma activations_fetch_target:
  "Fetch r \<in> set (snd (activations e target pending clicks p)) \<Longrightarrow> req_url r = target"
proof (induction clicks arbitrary: p)
  case Nil
  then show ?case by simp
next
  case (Cons c clicks)
  obtain v network where c: "c = (v, network)" by (cases c)
  obtain p' effects where a: "askBtn_click e target pending network v p = (p', effects)"
    by (cases "askBtn_click e target pending network v p")
  obtain p'' effects' where b: "activations e target pending clicks p' = (p'', effects')"
    by (cases "activations e target pending clicks p'")
  from Cons.prems c a b have "Fetch r \<in> set effects \<or> Fetch r \<in> set effects'"
    by simp
  then show ?case
  proof
    assume "Fetch r \<in> set effects"
    with a click_fetch_target [of r e target pending network v p] show ?thesis by simp
  next
    assume "Fetch r \<in> set effects'"
    with b Cons.IH [of p'] show ?thesis by simp
  qed
qed


lemma click_failed:
  assumes "trim value \<noteq> []"
    and "askBtn_click_resume e (network (ask_request target (trim value))) (show_pending pending p)
           = catch_block e err (show_pending pending p)"
  shows "askBtn_click e target pending network value p =
     (p\<lparr>output_display := js ''block'',
        answer_textContent := [0x274C, 0x0020] @
          (if message e err \<noteq> [] then message e err else js ''Error connecting to backend.''),
        sql_textContent := [], table_innerHTML := []\<rparr>,
      [Fetch (ask_request target (trim value)), ConsoleError err])"
  using assms by (simp add: click_nonempty catch_block_def show_pending_def)


lemma click_displayed:
  assumes "trim value \<noteq> []"
    and "network (ask_request target (trim value)) = Fulfilled res"
    and "ok res" and "json res = Inr data"
    and "display_response e data (show_pending pending p) = (p', None)"
  shows "askBtn_click e target pending network value p = (p', [Fetch (ask_request target (trim value))])"
  using assms by (simp add: click_nonempty resume_parsed)

lemma not_inherited_record:
  "k \<notin> set Object_prototype_names \<Longrightarrow> inherited_value e (JObj ms) k = JUndefined"
  by (simp add: inherited_value_def)

lemma click_thrown:
  assumes "trim value \<noteq> []"
    and "network (ask_request target (trim value)) = Fulfilled res"
    and "ok res" and "json res = Inr data"
    and "display_response e data (show_pending pending p) = (p', Some err)"
  shows "askBtn_click e target pending network value p =
     (p'\<lparr>answer_textContent := [0x274C, 0x0020] @
          (if message e err \<noteq> [] then message e err else js ''Error connecting to backend.'')\<rparr>,
      [Fetch (ask_request target (trim value)), ConsoleError err])"
  using assms by (simp add: click_nonempty resume_parsed catch_block_def)

subsection \<open>The message of a response that is not ok\<close>

lemma errMsg_prefix: "\<exists>rest. errMsg e res = js ''HTTP '' @ digits (status res) @ rest"
  by (auto simp: errMsg_def Let_def split: sum.splits)

lemma errMsg_nonempty: "errMsg e res \<noteq> []"
  using errMsg_prefix [of e res] by (auto simp: js_def)

lemma errMsg_includes_status: "includes_str (errMsg e res) (digits (status res))"
  using errMsg_prefix [of e res] includes_str_append by metis

lemma errMsg_unparsable: "json res = Inl err \<Longrightarrow> errMsg e res = js ''HTTP '' @ digits (status res)"
  by (simp add: errMsg_def)

lemma errMsg_falsy:
  "json res = Inr j \<Longrightarrow> \<not> truthy j \<Longrightarrow> errMsg e res = js ''HTTP '' @ digits (status res)"
  by (simp add: errMsg_def)

lemma read_no_field:
  assumes "truthy j" and "\<And>ms. j = JObj ms \<Longrightarrow> own_property ms k = None"
    and "inherited e j k = None"
    and "k \<noteq> js ''length''" and "canonical_numeral k = None"
  shows "read e j k = Inr JUndefined"
  using assms by (cases j) (auto simp: inherited_value_def array_index_def)

lemma errMsg_no_field:
  assumes "json res = Inr j"
    and "\<And>ms. j = JObj ms \<Longrightarrow>
           own_property ms (js ''detail'') = None \<and> own_property ms (js ''error'') = None"
    and "inherited e j (js ''detail'') = None" and "inherited e j (js ''error'') = None"
  shows "errMsg e res = js ''HTTP '' @ digits (status res)"
proof (cases "truthy j")
  case False
  with assms(1) show ?thesis by (simp add: errMsg_def)
next
  case True
  from True assms(2,3) have "read e j (js ''detail'') = Inr JUndefined"
    by (intro read_no_field) (auto simp: key_detail)
  moreover from True assms(2,4) have "read e j (js ''error'') = Inr JUndefined"
    by (intro read_no_field) (auto simp: key_error)
  ultimately show ?thesis using assms(1) by (simp add: errMsg_def Let_def)
qed

lemma errMsg_record_no_field:
  assumes "json res = Inr (JObj ms)"
    and "own_property ms (js ''detail'') = None" and "own_property ms (js ''error'') = None"
  shows "errMsg e res = js ''HTTP '' @ digits (status res)"
  using assms by (simp add: errMsg_def Let_def not_inherited_record names_not_inherited own_value_def)

lemma errMsg_detail:
  assumes "json res = Inr (JObj ms)" and "own_property ms (js ''detail'') = Some v" and "truthy v"
  shows "to_string v = Inr text \<Longrightarrow>
           errMsg e res = js ''HTTP '' @ digits (status res) @ js '' - '' @ text"
    and "to_string v = Inl err \<Longrightarrow> errMsg e res = js ''HTTP '' @ digits (status res)"
  using assms by (simp_all add: errMsg_def Let_def not_inherited_record names_not_inherited own_value_def)

lemma errMsg_error:
  assumes "json res = Inr (JObj ms)" and "\<not> truthy (own_value ms (js ''detail''))"
    and "own_property ms (js ''error'') = Some v" and "truthy v"
  shows "to_string v = Inr text \<Longrightarrow>
           errMsg e res = js ''HTTP '' @ digits (status res) @ js '' - '' @ text"
    and "to_string v = Inl err \<Longrightarrow> errMsg e res = js ''HTTP '' @ digits (status res)"
  using assms
  by (auto simp: errMsg_def Let_def not_inherited_record names_not_inherited own_value_def
      split: option.splits)

subsection \<open>The table\<close>

lemma read_first: "read e (JArr (x # xs)) (js ''0'') = Inr x"
  by (simp add: key_zero)

lemma read_length: "read e (JArr xs) (js ''length'') = Inr (JNum (digits (length xs)))"
  by simp

lemma concat_th: "concat (map th hs) = spec_header_cells hs"
  by (induction hs) (auto simp: th_def)

lemma converts_text: "converts v \<Longrightarrow> to_string v = Inr (spec_text v)"
  by (simp add: converts_def spec_text_def split: sum.splits)


lemma converts_or_else: "converts a \<Longrightarrow> converts (or_else a (JStr s))"
  by (simp add: or_else_def converts_def)

lemma cell_record:
  assumes "\<forall>v \<in> snd ` set record. converts v"
  shows "(case read e (JObj record) h of Inl err \<Rightarrow> Inl err | Inr v \<Rightarrow> td v)
           = Inr (js ''<td>'' @ spec_cell e record h @ js ''</td>'')"
proof (cases "own_property record h")
  case None
  then show ?thesis
    by (simp add: td_def spec_cell_def inherited_value_def)
next
  case (Some v)
  with assms have "converts v" by (auto dest: own_property_in_values)
  with Some show ?thesis
    by (simp add: td_def spec_cell_def converts_text)
qed

lemma tr_record:
  assumes "\<forall>v \<in> snd ` set record. converts v"
  shows "tr e hs (JObj record) = Inr (js ''<tr>'' @ spec_data_cells e record hs @ js ''</tr>'')"
proof -
  have "map_throwing (\<lambda>h. case read e (JObj record) h of Inl err \<Rightarrow> Inl err | Inr v \<Rightarrow> td v) hs
          = Inr (map (\<lambda>h. js ''<td>'' @ spec_cell e record h @ js ''</td>'') hs)"
    by (rule map_throwing_total) (rule cell_record [OF assms])
  moreover have "concat (map (\<lambda>h. js ''<td>'' @ spec_cell e record h @ js ''</td>'') hs)
      = spec_data_cells e record hs"
    by (induction hs) auto
  ultimately show ?thesis by (simp add: tr_def join_nil)
qed

lemma trs_records:
  assumes "\<forall>record \<in> set records. \<forall>v \<in> snd ` set record. converts v"
  shows "map_throwing (tr e hs) (map JObj records) =
     Inr (map (\<lambda>record. js ''<tr>'' @ spec_data_cells e record hs @ js ''</tr>'') records)"
proof -
  have "map_throwing (tr e hs) (map JObj records) =
          Inr (map (\<lambda>r. case r of JObj record \<Rightarrow> js ''<tr>'' @ spec_data_cells e record hs @ js ''</tr>'' | _ \<Rightarrow> [])
                 (map JObj records))"
    using assms by (intro map_throwing_total) (auto simp: tr_record)
  then show ?thesis by (simp add: comp_def)
qed

lemma concat_trs:
  "concat (map (\<lambda>record. js ''<tr>'' @ spec_data_cells e record hs @ js ''</tr>'') records)
     = spec_data_rows e hs records"
  by (induction records) auto

lemma tableHTML_records:
  assumes "\<forall>record \<in> set (first # others). \<forall>v \<in> snd ` set record. converts v"
  shows "tableHTML e (JArr (map JObj (first # others))) =
     Inr (table_template (spec_header_cells (own_keys first))
            (spec_data_rows e (own_keys first) (first # others)))"
proof -
  have "map_throwing (tr e (own_keys first)) (JObj first # map JObj others) =
          Inr (map (\<lambda>record. js ''<tr>'' @ spec_data_cells e record (own_keys first) @ js ''</tr>'')
                 (first # others))"
    using trs_records [OF assms, of e "own_keys first"] by simp
  then show ?thesis
    using concat_trs [of e "own_keys first" "first # others"]
    by (simp add: tableHTML_def key_zero join_nil concat_th del: map_throwing.simps)
qed

lemma display_response_no_rows:
  assumes "converts (own_value data (js ''answer''))" and "converts (own_value data (js ''sql''))"
    and "\<not> truthy (own_value data (js ''rows'')) \<or> own_value data (js ''rows'') = JArr []"
  shows "display_response e (JObj data) p =
     (p\<lparr>answer_textContent := spec_text (or_else (own_value data (js ''answer'')) (JStr (js ''(no summary)''))),
        sql_textContent := spec_text (or_else (own_value data (js ''sql'')) (JStr (js ''(no SQL returned)''))),
        table_innerHTML := js ''<p>No data found.</p>''\<rparr>, None)"
proof -
  note a = converts_text [OF converts_or_else [OF assms(1), of "js ''(no summary)''"]]
  note s = converts_text [OF converts_or_else [OF assms(2), of "js ''(no SQL returned)''"]]
  have len: "read e (JArr []) (js ''length'') = Inr (JNum (digits 0))"
    by simp
  from assms(3) show ?thesis
    by (auto simp: display_response_def Let_def read_record names_not_inherited a s len gt_zero_length
        simp del: read.simps gt_zero.simps)
qed

lemma display_response_records:
  assumes "converts (own_value data (js ''answer''))" and "converts (own_value data (js ''sql''))"
    and "own_value data (js ''rows'') = JArr (map JObj (first # others))"
    and "\<forall>record \<in> set (first # others). \<forall>v \<in> snd ` set record. converts v"
  shows "display_response e (JObj data) p =
     (p\<lparr>answer_textContent := spec_text (or_else (own_value data (js ''answer'')) (JStr (js ''(no summary)''))),
        sql_textContent := spec_text (or_else (own_value data (js ''sql'')) (JStr (js ''(no SQL returned)''))),
        table_innerHTML := table_template (spec_header_cells (own_keys first))
            (spec_data_rows e (own_keys first) (first # others))\<rparr>, None)"
proof -
  note a = converts_text [OF converts_or_else [OF assms(1), of "js ''(no summary)''"]]
  note s = converts_text [OF converts_or_else [OF assms(2), of "js ''(no SQL returned)''"]]
  have len: "read e (JArr (map JObj (first # others))) (js ''length'')
      = Inr (JNum (digits (length (first # others))))"
    by (simp del: list.map)
  show ?thesis
    using assms(3) tableHTML_records [OF assms(4), of e]
    by (simp add: display_response_def Let_def read_record names_not_inherited a s len gt_zero_length
        del: list.map read.simps gt_zero.simps)
qed





lemma not_includes_table: "\<not> includes_str (js ''<p>No data found.</p>'') (js ''<table'')"
  by (simp add: js_def)


lemma converts_simps:
  "converts (JStr s)" "converts JUndefined" "converts JNull" "converts (JBool b)" "converts (JNum t)"
  by (simp_all add: converts_def)

subsection \<open>Sample inputs evaluated\<close>

lemma trim_blank_question: "trim blank_question = []"
  by (simp add: trim_def blank_question_def is_white_space_def)

lemma trim_sample_question: "trim sample_question = js ''Which state grows the most rice?''"
  by (simp add: trim_def sample_question_def js_def is_white_space_def)

lemma trim_sample_question_nonempty: "trim sample_question \<noteq> []"
  by (simp add: trim_sample_question js_def)

lemma api_render: "includes_str render_origin (js ''onrender.com'')"
  by (simp add: render_origin_def js_def)

lemma api_local: "\<not> includes_str local_origin (js ''onrender.com'')"
  by (simp add: local_origin_def js_def)

lemma digits_500: "digits 500 = js ''500''"
  by code_simp

lemma own_detail_db_down:
  "own_property [(js ''detail'', JStr (js ''db down''))] (js ''detail'') = Some (JStr (js ''db down''))"
  by code_simp

lemma errMsg_db_down: "errMsg e db_down = js ''HTTP 500 - db down''"
proof -
  have parsed: "json db_down = Inr (JObj [(js ''detail'', JStr (js ''db down''))])"
    by (simp add: db_down_def)
  have nonempty: "truthy (JStr (js ''db down''))"
    by (simp add: js_def)
  have "errMsg e db_down = js ''HTTP '' @ digits (status db_down) @ js '' - '' @ js ''db down''"
    by (rule errMsg_detail(1) [OF parsed own_detail_db_down nonempty]) simp
  then show ?thesis
    by (simp add: db_down_def digits_500 js_def)
qed

lemma not_ok_db_down: "\<not> ok db_down"
  by (simp add: ok_def db_down_def)

lemma ok_not_json: "ok not_json" "json not_json = Inl (Failure (js ''Unexpected token < in JSON at position 0''))"
  by (simp_all add: ok_def not_json_def)

lemma digits_404: "digits 404 = js ''404''"
  by code_simp

lemma errMsg_not_found_page: "errMsg e not_found_page = js ''HTTP 404''"
  using errMsg_unparsable [of not_found_page _ e]
  by (simp add: not_found_page_def digits_404 js_def)

lemma not_ok_not_found_page: "\<not> ok not_found_page"
  by (simp add: ok_def not_found_page_def)

lemma ok_spec_example: "ok spec_example"
  by (simp add: ok_def spec_example_def)

lemma ok_ragged_rows: "ok ragged_rows"
  by (simp add: ok_def ragged_rows_def)

lemma ok_empty_rows: "ok empty_rows"
  by (simp add: ok_def empty_rows_def)



lemma ok_year_columns: "ok year_columns"
  by (simp add: ok_def year_columns_def)



lemma idx_2020: "array_index (js ''2020'') = Some 2020"
  by (simp add: js_def canonical_numeral_def array_index_def is_digit_def decimal_def)

lemma idx_state: "array_index (js ''state'') = None"
  by (simp add: js_def canonical_numeral_def array_index_def is_digit_def decimal_def)

lemma neq: "js ''state'' \<noteq> js ''2020''" "js ''2020'' \<noteq> js ''state''"
  by (simp_all add: js_def)

lemma own_keys_year_columns:
  "own_keys [(js ''state'', JStr (js ''Punjab'')), (js ''2020'', JStr (js ''11''))] = [js ''2020'', js ''state'']"
  using neq
  by (simp add: own_keys_def backend_keys_def first_occurrences_def index_keys_def named_keys_def
      is_array_index_def idx_2020 idx_state)

lemma idx_x: "array_index (js ''x'') = None" "array_index (js ''y'') = None" "js ''x'' \<noteq> js ''y''"
  "js ''y'' \<noteq> js ''x''"
  by (simp_all add: js_def canonical_numeral_def array_index_def is_digit_def decimal_def)

lemma own_keys_xy:
  "own_keys [(js ''x'', JStr (js ''1'')), (js ''y'', JStr (js ''2''))] = [js ''x'', js ''y'']"
  using idx_x(3,4)
  by (simp add: own_keys_def backend_keys_def first_occurrences_def index_keys_def named_keys_def
      is_array_index_def idx_x)

lemma table_year_columns:
  "table_innerHTML (fst (script sample_engine local_origin (replies year_columns) sample_question sample_page))
     = table_template (js ''<th>2020</th><th>state</th>'') (js ''<tr><td>11</td><td>Punjab</td></tr>'')"
  by code_simp

lemma headers_differ:
  "table_template (js ''<th>2020</th><th>state</th>'') (js ''<tr><td>11</td><td>Punjab</td></tr>'')
     \<noteq> table_template (js ''<th>state</th><th>2020</th>'') (js ''<tr><td>Punjab</td><td>11</td></tr>'')"
  by (simp add: table_template_def js_def)


lemma not_ok_detail_without_text: "\<not> ok detail_without_text"
  by code_simp

lemma errMsg_detail_without_text: "errMsg e detail_without_text = js ''HTTP 500''"
proof -
  have parsed: "json detail_without_text
      = Inr (JObj [(js ''detail'', JObj [(js ''toString'', JNum (js ''1''))])])"
    by (simp add: detail_without_text_def)
  have own: "own_property [(js ''detail'', JObj [(js ''toString'', JNum (js ''1''))])] (js ''detail'')
      = Some (JObj [(js ''toString'', JNum (js ''1''))])"
    by code_simp
  have throws: "to_string (JObj [(js ''toString'', JNum (js ''1''))])
      = Inl (TypeError (ToPrimitive (JObj [(js ''toString'', JNum (js ''1''))])))"
    by code_simp
  have "errMsg e detail_without_text = js ''HTTP '' @ digits (status detail_without_text)"
    by (rule errMsg_detail(2) [OF parsed own _ throws]) simp
  then show ?thesis
    by (simp add: detail_without_text_def digits_500 js_def)
qed

lemma ok_inherited_column: "ok inherited_column"
  by code_simp

lemma own_keys_constructor_n:
  "own_keys [(js ''constructor'', JStr (js ''c'')), (js ''n'', JStr (js ''1''))]
     = [js ''constructor'', js ''n'']"
  by code_simp

lemma table_inherited_column:
  "table_innerHTML (fst (script sample_engine local_origin (replies inherited_column) sample_question sample_page))
     = table_template (js ''<th>constructor</th><th>n</th>'')
         (js ''<tr><td>c</td><td>1</td></tr><tr><td>function Object() { [native code] }</td><td>2</td></tr>'')"
  by code_simp

lemma cells_differ:
  "table_template (js ''<th>constructor</th><th>n</th>'')
         (js ''<tr><td>c</td><td>1</td></tr><tr><td>function Object() { [native code] }</td><td>2</td></tr>'')
     \<noteq> table_template (js ''<th>constructor</th><th>n</th>'')
         (js ''<tr><td>c</td><td>1</td></tr><tr><td>undefined</td><td>2</td></tr>'')"
  "table_template (js ''<th>constructor</th><th>n</th>'')
         (js ''<tr><td>c</td><td>1</td></tr><tr><td>function Object() { [native code] }</td><td>2</td></tr>'')
     \<noteq> table_template (js ''<th>constructor</th><th>n</th>'')
         (js ''<tr><td>c</td><td>1</td></tr><tr><td></td><td>2</td></tr>'')"
  by (simp_all add: table_template_def js_def)











text \<open>A cell that has no text: the table is not written, and the answer region is overwritten.\<close>

lemma script_cell_without_text:
  "script sample_engine local_origin (replies cell_without_text) sample_question sample_page =
     (\<lparr>output_display = js ''block'',
       answer_textContent = [0x274C, 0x0020] @ js ''Cannot convert object to primitive value'',
       sql_textContent = js ''(no SQL returned)'', table_innerHTML = []\<rparr>,
      [Fetch (ask_request (js ''http://127.0.0.1:8000/ask'') (js ''Which state grows the most rice?'')),
       ConsoleError (TypeError (ToPrimitive (JObj [(js ''toString'', JNum (js ''1''))])))])"
  by code_simp

section \<open>The claims\<close>

text \<open>
  C1.  For every question that is empty after trimming white space, an activation of the
  handler shows the blocking notice and returns without issuing a network call: the notice
  is all the activation does, in both variants of the script and whatever the engine, the
  origin, the network and the page.
\<close>

theorem empty_question_alerts_without_request:
  assumes "trim value = []"
  shows "snd (script e origin network value p) = [Alert (js ''Please enter a question first!'')] \<and>
         snd (script_fixed e network value p) = [Alert (js ''Please enter a question first!'')]"
  using assms by (simp add: script_def script_fixed_def click_empty)

theorem empty_question_alerts_without_request_witness:
  "trim blank_question = [] \<and>
   snd (script sample_engine render_origin network_down blank_question sample_page) =
     [Alert (js ''Please enter a question first!'')] \<and>
   snd (script_fixed sample_engine network_down blank_question sample_page) =
     [Alert (js ''Please enter a question first!'')]"
  using empty_question_alerts_without_request [OF trim_blank_question] trim_blank_question
  by simp

text \<open>
  C10.  An activation that is aborted by the check of the question leaves the page as it
  was: the visibility of the output container and the contents of the answer, query-text
  and table regions are those from before the activation.
\<close>

theorem empty_question_leaves_page_unchanged:
  assumes "trim value = []"
  shows "fst (script e origin network value p) = p \<and> fst (script_fixed e network value p) = p"
  using assms by (simp add: script_def script_fixed_def click_empty)

theorem empty_question_leaves_page_unchanged_witness:
  "trim blank_question = [] \<and>
   fst (script sample_engine render_origin network_down blank_question sample_page) = sample_page \<and>
   fst (script_fixed sample_engine network_down blank_question sample_page) = sample_page"
  using empty_question_leaves_page_unchanged [OF trim_blank_question] trim_blank_question
  by simp

text \<open>
  C8.  For every question that is not empty after trimming, the handler is suspended at the
  call of \<open>fetch\<close> with the output container set to \<open>block\<close>, the pending text in the
  answer region, and the query-text and table regions empty; the request is issued from
  that state and is the first effect of the activation.
\<close>

theorem pending_state_precedes_request:
  assumes "trim value \<noteq> []"
  shows "askBtn_click_begin target pending value p =
           Awaiting (show_pending pending p) (ask_request target (trim value)) \<and>
         output_display (show_pending pending p) = js ''block'' \<and>
         answer_textContent (show_pending pending p) = pending \<and>
         sql_textContent (show_pending pending p) = [] \<and>
         table_innerHTML (show_pending pending p) = [] \<and>
         script e origin network value p =
           (case askBtn_click_resume e (network (ask_request (API_URL origin) (trim value)))
                   (show_pending (0x23F3 # js '' Thinking...'') p) of
              (p', effects) \<Rightarrow> (p', Fetch (ask_request (API_URL origin) (trim value)) # effects))"
  using assms by (simp add: begin_nonempty click_nonempty script_def show_pending_def)

theorem pending_state_precedes_request_witness:
  "trim sample_question \<noteq> [] \<and>
   askBtn_click_begin (API_URL render_origin) (0x23F3 # js '' Thinking...'') sample_question sample_page =
     Awaiting
       \<lparr>output_display = js ''block'', answer_textContent = 0x23F3 # js '' Thinking...'',
        sql_textContent = [], table_innerHTML = []\<rparr>
       (ask_request (js ''https://crop-dcdl.onrender.com/ask'') (js ''Which state grows the most rice?''))"
  using pending_state_precedes_request [OF trim_sample_question_nonempty,
      of "API_URL render_origin" "0x23F3 # js '' Thinking...''" sample_page]
    trim_sample_question_nonempty
  by (simp add: show_pending_def sample_page_def trim_sample_question API_URL_def render_origin_def js_def)

text \<open>
  C5.  The endpoint is computed once, when the script is loaded: for a page origin that
  contains \<open>onrender.com\<close> it is the origin followed by \<open>/ask\<close>, otherwise the fixed
  local address; every request of every activation of the page load goes to that one value.
  (The first variant of the script has no such constant: all its requests go to the local
  address.)
\<close>

theorem endpoint_resolved_once:
  "(includes_str origin (js ''onrender.com'') \<longrightarrow> API_URL origin = origin @ js ''/ask'') \<and>
   (\<not> includes_str origin (js ''onrender.com'') \<longrightarrow> API_URL origin = js ''http://127.0.0.1:8000/ask'') \<and>
   (\<forall>r. Fetch r \<in> set (snd (page_lifetime e origin clicks p)) \<longrightarrow> req_url r = API_URL origin) \<and>
   (\<forall>r. Fetch r \<in> set (snd (script_fixed e network value p)) \<longrightarrow>
      req_url r = js ''http://127.0.0.1:8000/ask'')"
  by (auto simp: API_URL_def page_lifetime_def script_fixed_def
      dest: activations_fetch_target click_fetch_target)

theorem endpoint_resolved_once_witness:
  "includes_str render_origin (js ''onrender.com'') \<and>
   API_URL render_origin = js ''https://crop-dcdl.onrender.com/ask'' \<and>
   \<not> includes_str local_origin (js ''onrender.com'') \<and>
   API_URL local_origin = js ''http://127.0.0.1:8000/ask'' \<and>
   Fetch (ask_request (js ''https://crop-dcdl.onrender.com/ask'') (js ''Which state grows the most rice?''))
     \<in> set (snd (page_lifetime sample_engine render_origin
                  [(sample_question, network_down), (blank_question, network_down),
                   (sample_question, network_down)] sample_page)) \<and>
   req_url (ask_request (js ''https://crop-dcdl.onrender.com/ask'') (js ''Which state grows the most rice?''))
     = API_URL render_origin"
proof -
  have url: "API_URL render_origin = js ''https://crop-dcdl.onrender.com/ask''"
    using endpoint_resolved_once [of render_origin] api_render
    by (simp add: render_origin_def js_def)
  have loc: "API_URL local_origin = js ''http://127.0.0.1:8000/ask''"
    using endpoint_resolved_once [of local_origin] api_local by simp
  have mem: "Fetch (ask_request (js ''https://crop-dcdl.onrender.com/ask'') (js ''Which state grows the most rice?''))
     \<in> set (snd (page_lifetime sample_engine render_origin
                  [(sample_question, network_down), (blank_question, network_down),
                   (sample_question, network_down)] sample_page))"
    by code_simp
  from mem endpoint_resolved_once [of render_origin sample_engine
      "[(sample_question, network_down), (blank_question, network_down), (sample_question, network_down)]"
      sample_page]
  have "req_url (ask_request (js ''https://crop-dcdl.onrender.com/ask'') (js ''Which state grows the most rice?''))
     = API_URL render_origin"
    by blast
  with url loc mem api_render api_local show ?thesis by blast
qed

text \<open>
  C4.  An activation that fails, by a rejected request, by a response whose status is not a
  success, or by a success body that is not JSON, ends with the error mark and the message
  of the failure in the answer region (the fixed connectivity text when that message is
  empty), and with the query-text and table regions empty as the activation cleared them.
\<close>

theorem failure_is_reported_in_answer_region:
  assumes "trim value \<noteq> []"
    and "network (ask_request (API_URL origin) (trim value)) = settled"
  shows
    "(\<forall>err. settled = Rejected err \<longrightarrow>
        fst (script e origin network value p) =
          p\<lparr>output_display := js ''block'',
            answer_textContent := [0x274C, 0x0020] @
              (if message e err \<noteq> [] then message e err else js ''Error connecting to backend.''),
            sql_textContent := [], table_innerHTML := []\<rparr>) \<and>
     (\<forall>res. settled = Fulfilled res \<and> \<not> ok res \<longrightarrow>
        fst (script e origin network value p) =
          p\<lparr>output_display := js ''block'',
            answer_textContent := [0x274C, 0x0020] @ errMsg e res,
            sql_textContent := [], table_innerHTML := []\<rparr>) \<and>
     (\<forall>res err. settled = Fulfilled res \<and> ok res \<and> json res = Inl err \<longrightarrow>
        fst (script e origin network value p) =
          p\<lparr>output_display := js ''block'',
            answer_textContent := [0x274C, 0x0020] @
              (if message e err \<noteq> [] then message e err else js ''Error connecting to backend.''),
            sql_textContent := [], table_innerHTML := []\<rparr>)"
proof (intro conjI allI impI)
  fix err
  assume "settled = Rejected err"
  with assms show "fst (script e origin network value p) =
          p\<lparr>output_display := js ''block'',
            answer_textContent := [0x274C, 0x0020] @
              (if message e err \<noteq> [] then message e err else js ''Error connecting to backend.''),
            sql_textContent := [], table_innerHTML := []\<rparr>"
    by (simp add: script_def click_failed resume_rejected)
next
  fix res
  assume "settled = Fulfilled res \<and> \<not> ok res"
  with assms show "fst (script e origin network value p) =
          p\<lparr>output_display := js ''block'',
            answer_textContent := [0x274C, 0x0020] @ errMsg e res,
            sql_textContent := [], table_innerHTML := []\<rparr>"
    by (simp add: script_def click_failed [where err = "Failure (errMsg e res)"] resume_not_ok errMsg_nonempty)
next
  fix res err
  assume "settled = Fulfilled res \<and> ok res \<and> json res = Inl err"
  with assms show "fst (script e origin network value p) =
          p\<lparr>output_display := js ''block'',
            answer_textContent := [0x274C, 0x0020] @
              (if message e err \<noteq> [] then message e err else js ''Error connecting to backend.''),
            sql_textContent := [], table_innerHTML := []\<rparr>"
    by (simp add: script_def click_failed [where err = err] resume_unparsable)
qed


theorem failure_is_reported_in_answer_region_witness:
  "trim sample_question \<noteq> [] \<and>
   fst (script sample_engine local_origin network_down sample_question sample_page) =
     \<lparr>output_display = js ''block'', answer_textContent = [0x274C, 0x0020] @ js ''Failed to fetch'',
      sql_textContent = [], table_innerHTML = []\<rparr> \<and>
   \<not> ok db_down \<and>
   fst (script sample_engine local_origin (replies db_down) sample_question sample_page) =
     \<lparr>output_display = js ''block'', answer_textContent = [0x274C, 0x0020] @ js ''HTTP 500 - db down'',
      sql_textContent = [], table_innerHTML = []\<rparr> \<and>
   ok not_json \<and>
   fst (script sample_engine local_origin (replies not_json) sample_question sample_page) =
     \<lparr>output_display = js ''block'',
      answer_textContent = [0x274C, 0x0020] @ js ''Unexpected token < in JSON at position 0'',
      sql_textContent = [], table_innerHTML = []\<rparr>"
proof -
  note q = trim_sample_question_nonempty
  have a: "fst (script sample_engine local_origin network_down sample_question sample_page) =
     \<lparr>output_display = js ''block'', answer_textContent = [0x274C, 0x0020] @ js ''Failed to fetch'',
      sql_textContent = [], table_innerHTML = []\<rparr>"
    using failure_is_reported_in_answer_region [OF q, of network_down local_origin
        "Rejected (Failure (js ''Failed to fetch''))" sample_engine sample_page]
    by (simp add: network_down_def sample_page_def js_def)
  have b: "fst (script sample_engine local_origin (replies db_down) sample_question sample_page) =
     \<lparr>output_display = js ''block'', answer_textContent = [0x274C, 0x0020] @ js ''HTTP 500 - db down'',
      sql_textContent = [], table_innerHTML = []\<rparr>"
    using failure_is_reported_in_answer_region [OF q, of "replies db_down" local_origin
        "Fulfilled db_down" sample_engine sample_page] not_ok_db_down
    by (simp add: replies_def sample_page_def errMsg_db_down)
  have c: "fst (script sample_engine local_origin (replies not_json) sample_question sample_page) =
     \<lparr>output_display = js ''block'',
      answer_textContent = [0x274C, 0x0020] @ js ''Unexpected token < in JSON at position 0'',
      sql_textContent = [], table_innerHTML = []\<rparr>"
    using failure_is_reported_in_answer_region [OF q, of "replies not_json" local_origin
        "Fulfilled not_json" sample_engine sample_page] ok_not_json
    by (simp add: replies_def sample_page_def js_def)
  from q a b c not_ok_db_down ok_not_json(1) show ?thesis by blast
qed

text \<open>
  C6 (as amended).  For every transport-level failure the answer region shows the error
  mark followed by the message the rejection carries; the fixed text
  \<open>Error connecting to backend.\<close> stands in only when that message is empty.  The
  query-text and table regions remain empty.
\<close>

theorem transport_failure_shows_rejection_message:
  assumes "trim value \<noteq> []"
    and "network (ask_request (API_URL origin) (trim value)) = Rejected err"
  shows
    "(message e err \<noteq> [] \<longrightarrow>
        answer_textContent (fst (script e origin network value p)) = [0x274C, 0x0020] @ message e err) \<and>
     (message e err = [] \<longrightarrow>
        answer_textContent (fst (script e origin network value p)) =
          [0x274C, 0x0020] @ js ''Error connecting to backend.'') \<and>
     sql_textContent (fst (script e origin network value p)) = [] \<and>
     table_innerHTML (fst (script e origin network value p)) = []"
  using assms by (simp add: script_def click_failed resume_rejected)

theorem transport_failure_shows_rejection_message_witness:
  "trim sample_question \<noteq> [] \<and>
   answer_textContent (fst (script sample_engine local_origin network_down sample_question sample_page))
     = [0x274C, 0x0020] @ js ''Failed to fetch'' \<and>
   answer_textContent (fst (script sample_engine local_origin network_silent sample_question sample_page))
     = [0x274C, 0x0020] @ js ''Error connecting to backend.'' \<and>
   sql_textContent (fst (script sample_engine local_origin network_down sample_question sample_page)) = [] \<and>
   table_innerHTML (fst (script sample_engine local_origin network_down sample_question sample_page)) = []"
  using transport_failure_shows_rejection_message [OF trim_sample_question_nonempty,
      of network_down local_origin "Failure (js ''Failed to fetch'')" sample_engine sample_page]
    transport_failure_shows_rejection_message [OF trim_sample_question_nonempty,
      of network_silent local_origin "Failure []" sample_engine sample_page]
    trim_sample_question_nonempty
  by (simp add: network_down_def network_silent_def js_def)

text \<open>
  C6 as stated fails: when the request is rejected with the message \<open>Failed to fetch\<close>,
  the answer region shows that message and not the fixed connectivity text.
\<close>

theorem transport_failure_generic_message_counterexample:
  "answer_textContent (fst (script sample_engine local_origin network_down sample_question sample_page))
     = [0x274C, 0x0020] @ js ''Failed to fetch'' \<and>
   \<not> includes_str
       (answer_textContent (fst (script sample_engine local_origin network_down sample_question sample_page)))
       (js ''Error connecting to backend.'')"
  by code_simp

text \<open>
  C2.  For every response whose status is not a success the handler throws an error whose
  message begins with \<open>HTTP\<close> and the status code, and the answer region shows it after
  the error mark.  When the body parses as JSON and has a \<open>detail\<close> field that is text, or
  has no \<open>detail\<close> but an \<open>error\<close> field that is text, that text occurs in the message.
  More precisely, for a truthy \<open>detail\<close>, or else a truthy \<open>error\<close>, the message is
  \<open>HTTP status - \<close> followed by the text the value converts to (a field whose value is
  falsy adds nothing); and where that conversion throws, as for \<open>{"detail":{"toString":1}}\<close>,
  the exception is swallowed and the message is the status alone.  When the body does not
  parse, or has neither field, the message is \<open>HTTP\<close> and the status code alone.  For
  status 500 and the body \<open>{"detail":"db down"}\<close> the answer region contains \<open>500\<close> and
  \<open>db down\<close>.
\<close>

theorem http_error_message_carries_status_and_detail:
  assumes "trim value \<noteq> []"
    and "network (ask_request (API_URL origin) (trim value)) = Fulfilled res"
    and "\<not> ok res"
  shows
    "script e origin network value p =
       (p\<lparr>output_display := js ''block'', answer_textContent := [0x274C, 0x0020] @ errMsg e res,
          sql_textContent := [], table_innerHTML := []\<rparr>,
        [Fetch (ask_request (API_URL origin) (trim value)), ConsoleError (Failure (errMsg e res))]) \<and>
     includes_str (errMsg e res) (digits (status res)) \<and>
     (\<forall>err. json res = Inl err \<longrightarrow> errMsg e res = js ''HTTP '' @ digits (status res)) \<and>
     (\<forall>j. json res = Inr j \<and> \<not> truthy j \<longrightarrow> errMsg e res = js ''HTTP '' @ digits (status res)) \<and>
     (\<forall>ms. json res = Inr (JObj ms) \<and>
          own_property ms (js ''detail'') = None \<and> own_property ms (js ''error'') = None \<longrightarrow>
        errMsg e res = js ''HTTP '' @ digits (status res)) \<and>
     (\<forall>j. json res = Inr j \<and> (\<forall>ms. j \<noteq> JObj ms) \<and>
          inherited e j (js ''detail'') = None \<and> inherited e j (js ''error'') = None \<longrightarrow>
        errMsg e res = js ''HTTP '' @ digits (status res)) \<and>
     (\<forall>ms d. json res = Inr (JObj ms) \<and> own_property ms (js ''detail'') = Some (JStr d) \<longrightarrow>
        includes_str (errMsg e res) d) \<and>
     (\<forall>ms t. json res = Inr (JObj ms) \<and> own_property ms (js ''detail'') = None \<and>
          own_property ms (js ''error'') = Some (JStr t) \<longrightarrow>
        includes_str (errMsg e res) t) \<and>
     (\<forall>ms v text. json res = Inr (JObj ms) \<and> own_property ms (js ''detail'') = Some v \<and> truthy v \<and>
          to_string v = Inr text \<longrightarrow>
        errMsg e res = js ''HTTP '' @ digits (status res) @ js '' - '' @ text) \<and>
     (\<forall>ms v err. json res = Inr (JObj ms) \<and> own_property ms (js ''detail'') = Some v \<and> truthy v \<and>
          to_string v = Inl err \<longrightarrow>
        errMsg e res = js ''HTTP '' @ digits (status res)) \<and>
     (\<forall>ms v text. json res = Inr (JObj ms) \<and> \<not> truthy (own_value ms (js ''detail'')) \<and>
          own_property ms (js ''error'') = Some v \<and> truthy v \<and> to_string v = Inr text \<longrightarrow>
        errMsg e res = js ''HTTP '' @ digits (status res) @ js '' - '' @ text) \<and>
     (\<forall>ms v err. json res = Inr (JObj ms) \<and> \<not> truthy (own_value ms (js ''detail'')) \<and>
          own_property ms (js ''error'') = Some v \<and> truthy v \<and> to_string v = Inl err \<longrightarrow>
        errMsg e res = js ''HTTP '' @ digits (status res)) \<and>
     (status res = 500 \<and> json res = Inr (JObj [(js ''detail'', JStr (js ''db down''))]) \<longrightarrow>
        includes_str (answer_textContent (fst (script e origin network value p))) (js ''500'') \<and>
        includes_str (answer_textContent (fst (script e origin network value p))) (js ''db down''))"
proof -
  have run: "script e origin network value p =
       (p\<lparr>output_display := js ''block'', answer_textContent := [0x274C, 0x0020] @ errMsg e res,
          sql_textContent := [], table_innerHTML := []\<rparr>,
        [Fetch (ask_request (API_URL origin) (trim value)), ConsoleError (Failure (errMsg e res))])"
    using assms
    by (simp add: script_def click_failed [where err = "Failure (errMsg e res)"] resume_not_ok
        errMsg_nonempty)
  have other: "errMsg e res = js ''HTTP '' @ digits (status res)"
    if "json res = Inr j" and "\<forall>ms. j \<noteq> JObj ms"
      and "inherited e j (js ''detail'') = None" and "inherited e j (js ''error'') = None" for j
    using that by (intro errMsg_no_field [of res j e]) simp_all
  have detail: "includes_str (errMsg e res) d"
    if "json res = Inr (JObj ms)" and "own_property ms (js ''detail'') = Some (JStr d)" for ms d
  proof (cases "d = []")
    case True
    then show ?thesis by (simp add: includes_str_nil)
  next
    case False
    with that have "errMsg e res = (js ''HTTP '' @ digits (status res) @ js '' - '') @ d @ []"
      by (simp add: errMsg_detail(1) [where v = "JStr d"])
    then show ?thesis by (simp only: includes_str_append)
  qed
  have error: "includes_str (errMsg e res) t"
    if "json res = Inr (JObj ms)" and "own_property ms (js ''detail'') = None"
      and "own_property ms (js ''error'') = Some (JStr t)" for ms t
  proof (cases "t = []")
    case True
    then show ?thesis by (simp add: includes_str_nil)
  next
    case False
    with that have "errMsg e res = (js ''HTTP '' @ digits (status res) @ js '' - '') @ t @ []"
      by (simp add: errMsg_error(1) [where v = "JStr t"] own_value_def)
    then show ?thesis by (simp only: includes_str_append)
  qed
  have example: "includes_str (answer_textContent (fst (script e origin network value p))) (js ''500'') \<and>
        includes_str (answer_textContent (fst (script e origin network value p))) (js ''db down'')"
    if "status res = 500" and "json res = Inr (JObj [(js ''detail'', JStr (js ''db down''))])"
  proof -
    have nonempty: "truthy (JStr (js ''db down''))" by (simp add: js_def)
    have "errMsg e res = js ''HTTP '' @ digits (status res) @ js '' - '' @ js ''db down''"
      by (rule errMsg_detail(1) [OF that(2) own_detail_db_down nonempty]) simp
    then have m: "answer_textContent (fst (script e origin network value p)) =
        [0x274C, 0x0020] @ js ''HTTP '' @ js ''500'' @ js '' - '' @ js ''db down''"
      using that(1) by (simp add: run digits_500)
    have "includes_str (([0x274C, 0x0020] @ js ''HTTP '') @ js ''500'' @ (js '' - '' @ js ''db down'')) (js ''500'')"
      by (rule includes_str_append)
    moreover have "includes_str (([0x274C, 0x0020] @ js ''HTTP '' @ js ''500'' @ js '' - '') @ js ''db down'' @ []) (js ''db down'')"
      by (rule includes_str_append)
    ultimately show ?thesis by (simp add: m)
  qed
  show ?thesis
    using run errMsg_includes_status [of e res] errMsg_unparsable [of res _ e] errMsg_falsy [of res _ e]
      errMsg_record_no_field [of res _ e] other detail error
      errMsg_detail [of res _ _ _ e] errMsg_error [of res _ _ _ e] example
    by (intro conjI allI impI) blast+
qed

theorem http_error_message_carries_status_and_detail_witness:
  "trim sample_question \<noteq> [] \<and> \<not> ok db_down \<and> \<not> ok not_found_page \<and> \<not> ok detail_without_text \<and>
   script sample_engine local_origin (replies db_down) sample_question sample_page =
     (\<lparr>output_display = js ''block'', answer_textContent = [0x274C, 0x0020] @ js ''HTTP 500 - db down'',
       sql_textContent = [], table_innerHTML = []\<rparr>,
      [Fetch (ask_request (js ''http://127.0.0.1:8000/ask'') (js ''Which state grows the most rice?'')),
       ConsoleError (Failure (js ''HTTP 500 - db down''))]) \<and>
   includes_str
     (answer_textContent (fst (script sample_engine local_origin (replies db_down) sample_question sample_page)))
     (js ''500'') \<and>
   includes_str
     (answer_textContent (fst (script sample_engine local_origin (replies db_down) sample_question sample_page)))
     (js ''db down'') \<and>
   answer_textContent (fst (script sample_engine local_origin (replies not_found_page) sample_question sample_page))
     = [0x274C, 0x0020] @ js ''HTTP 404'' \<and>
   answer_textContent (fst (script sample_engine local_origin (replies detail_without_text) sample_question sample_page))
     = [0x274C, 0x0020] @ js ''HTTP 500''"
proof -
  note q = trim_sample_question_nonempty
  have url: "API_URL local_origin = js ''http://127.0.0.1:8000/ask''"
    using api_local by (simp add: API_URL_def)
  have h: "replies db_down (ask_request (API_URL local_origin) (trim sample_question)) = Fulfilled db_down"
    by (simp add: replies_def)
  have h': "replies not_found_page (ask_request (API_URL local_origin) (trim sample_question))
      = Fulfilled not_found_page"
    by (simp add: replies_def)
  have h'': "replies detail_without_text (ask_request (API_URL local_origin) (trim sample_question))
      = Fulfilled detail_without_text"
    by (simp add: replies_def)
  note t = http_error_message_carries_status_and_detail
      [where network = "replies db_down" and origin = local_origin and e = sample_engine
         and p = sample_page, OF q h not_ok_db_down]
  note t' = http_error_message_carries_status_and_detail
      [where network = "replies not_found_page" and origin = local_origin and e = sample_engine
         and p = sample_page, OF q h' not_ok_not_found_page]
  note t'' = http_error_message_carries_status_and_detail
      [where network = "replies detail_without_text" and origin = local_origin and e = sample_engine
         and p = sample_page, OF q h'' not_ok_detail_without_text]
  from t have a: "script sample_engine local_origin (replies db_down) sample_question sample_page =
     (\<lparr>output_display = js ''block'', answer_textContent = [0x274C, 0x0020] @ js ''HTTP 500 - db down'',
       sql_textContent = [], table_innerHTML = []\<rparr>,
      [Fetch (ask_request (js ''http://127.0.0.1:8000/ask'') (js ''Which state grows the most rice?'')),
       ConsoleError (Failure (js ''HTTP 500 - db down''))])"
    by (simp add: errMsg_db_down sample_page_def url trim_sample_question)
  have f: "status db_down = 500" "json db_down = Inr (JObj [(js ''detail'', JStr (js ''db down''))])"
    by (simp_all add: db_down_def)
  from t f have b: "includes_str
     (answer_textContent (fst (script sample_engine local_origin (replies db_down) sample_question sample_page)))
     (js ''500'')"
    and c: "includes_str
     (answer_textContent (fst (script sample_engine local_origin (replies db_down) sample_question sample_page)))
     (js ''db down'')"
    by blast+
  from t' have d: "answer_textContent (fst (script sample_engine local_origin (replies not_found_page) sample_question sample_page))
     = [0x274C, 0x0020] @ js ''HTTP 404''"
    by (simp add: errMsg_not_found_page)
  from t'' have g: "answer_textContent (fst (script sample_engine local_origin (replies detail_without_text) sample_question sample_page))
     = [0x274C, 0x0020] @ js ''HTTP 500''"
    by (simp add: errMsg_detail_without_text)
  from q a b c d g not_ok_db_down not_ok_not_found_page not_ok_detail_without_text show ?thesis by blast
qed

text \<open>
  C3 (as amended).  For every successful response whose \<open>answer\<close> and \<open>sql\<close> convert to
  text and whose \<open>rows\<close> is a non-empty sequence of records with values that convert to
  text, the table has one header cell for each distinct key of the first record, in the
  order in which \<open>Object.keys\<close> enumerates them: the keys that are array indices (canonical
  decimal numerals) first, in ascending numeric order, then the other keys in the order of
  the backend; so the headers are in backend order when no key of the first record is such a
  numeral.  One data row per record follows, each cell the text of the record's value under
  the header's key; where the record has no such key, the cell is the text of the member of
  \<open>Object.prototype\<close> of that name, and the text \<open>undefined\<close> when there is none.  For such
  a response whose \<open>rows\<close> is absent or empty the region holds the placeholder
  \<open>No data found.\<close> and no table.
\<close>

theorem table_of_rows:
  assumes "trim value \<noteq> []"
    and "network (ask_request (API_URL origin) (trim value)) = Fulfilled res"
    and "ok res" and "json res = Inr (JObj data)"
    and "converts (own_value data (js ''answer''))" and "converts (own_value data (js ''sql''))"
  shows
    "(\<forall>first others. own_value data (js ''rows'') = JArr (map JObj (first # others)) \<and>
          (\<forall>record \<in> set (first # others). \<forall>v \<in> snd ` set record. converts v) \<longrightarrow>
        table_innerHTML (fst (script e origin network value p)) =
          table_template (spec_header_cells (own_keys first))
            (spec_data_rows e (own_keys first) (first # others)) \<and>
        set (own_keys first) = fst ` set first \<and> distinct (own_keys first) \<and>
        own_keys first = index_keys (backend_keys first) @ named_keys (backend_keys first) \<and>
        sorted (map index_value (index_keys (backend_keys first))) \<and>
        ((\<forall>k \<in> fst ` set first. \<not> is_array_index k) \<longrightarrow> own_keys first = backend_keys first) \<and>
        (distinct (map fst first) \<longrightarrow> backend_keys first = map fst first)) \<and>
     (own_property data (js ''rows'') = None \<or> own_value data (js ''rows'') = JArr [] \<longrightarrow>
        table_innerHTML (fst (script e origin network value p)) = js ''<p>No data found.</p>'' \<and>
        \<not> includes_str (table_innerHTML (fst (script e origin network value p))) (js ''<table''))"
proof (intro conjI allI impI)
  fix first others
  assume "own_value data (js ''rows'') = JArr (map JObj (first # others)) \<and>
          (\<forall>record \<in> set (first # others). \<forall>v \<in> snd ` set record. converts v)"
  then have rows: "own_value data (js ''rows'') = JArr (map JObj (first # others))"
    and texts: "\<forall>record \<in> set (first # others). \<forall>v \<in> snd ` set record. converts v"
    by blast+
  from assms(1-4) display_response_records [OF assms(5,6) rows texts]
  show "table_innerHTML (fst (script e origin network value p)) =
          table_template (spec_header_cells (own_keys first))
            (spec_data_rows e (own_keys first) (first # others))"
    by (simp add: script_def click_displayed)
  show "set (own_keys first) = fst ` set first" by (rule set_own_keys)
  show "distinct (own_keys first)" by (rule distinct_own_keys)
  show "own_keys first = index_keys (backend_keys first) @ named_keys (backend_keys first)"
    by (simp add: own_keys_def)
  show "sorted (map index_value (index_keys (backend_keys first)))" by (rule sorted_index_keys)
  show "own_keys first = backend_keys first" if "\<forall>k \<in> fst ` set first. \<not> is_array_index k"
    using that by (rule own_keys_no_index)
  show "backend_keys first = map fst first" if "distinct (map fst first)"
    using that by (simp add: backend_keys_def first_occurrences_distinct)
next
  assume "own_property data (js ''rows'') = None \<or> own_value data (js ''rows'') = JArr []"
  then have "\<not> truthy (own_value data (js ''rows'')) \<or> own_value data (js ''rows'') = JArr []"
    by (auto simp: own_value_def)
  from assms(1-4) display_response_no_rows [OF assms(5,6) this]
  have t: "table_innerHTML (fst (script e origin network value p)) = js ''<p>No data found.</p>''"
    by (simp add: script_def click_displayed)
  then show "table_innerHTML (fst (script e origin network value p)) = js ''<p>No data found.</p>''" .
  from t show "\<not> includes_str (table_innerHTML (fst (script e origin network value p))) (js ''<table'')"
    by (simp only: not_includes_table not_False_eq_True)
qed

theorem table_of_rows_witness:
  "trim sample_question \<noteq> [] \<and> ok spec_example \<and> ok ragged_rows \<and> ok inherited_column \<and> ok empty_rows \<and>
   table_innerHTML (fst (script sample_engine local_origin (replies spec_example) sample_question sample_page))
     = table_template (js ''<th>x</th><th>y</th>'') (js ''<tr><td>1</td><td>2</td></tr>'') \<and>
   table_innerHTML (fst (script sample_engine local_origin (replies ragged_rows) sample_question sample_page))
     = table_template (js ''<th>x</th><th>y</th>'')
         (js ''<tr><td>1</td><td>2</td></tr><tr><td>3</td><td>undefined</td></tr>'') \<and>
   table_innerHTML (fst (script sample_engine local_origin (replies inherited_column) sample_question sample_page))
     = table_template (js ''<th>constructor</th><th>n</th>'')
         (js ''<tr><td>c</td><td>1</td></tr><tr><td>function Object() { [native code] }</td><td>2</td></tr>'') \<and>
   table_innerHTML (fst (script sample_engine local_origin (replies empty_rows) sample_question sample_page))
     = js ''<p>No data found.</p>''"
proof -
  note q = trim_sample_question_nonempty
  let ?xy = "[(js ''x'', JStr (js ''1'')), (js ''y'', JStr (js ''2''))]"
  let ?x = "[(js ''x'', JStr (js ''3''))]"
  let ?cn = "[(js ''constructor'', JStr (js ''c'')), (js ''n'', JStr (js ''1''))]"
  let ?n = "[(js ''n'', JStr (js ''2''))]"
  let ?d1 = "[(js ''answer'', JStr (js ''A'')), (js ''sql'', JStr (js ''S'')), (js ''rows'', JArr [JObj ?xy])]"
  let ?d2 = "[(js ''rows'', JArr [JObj ?xy, JObj ?x])]"
  let ?d3 = "[(js ''answer'', JStr (js ''A'')), (js ''rows'', JArr [])]"
  let ?d4 = "[(js ''rows'', JArr [JObj ?cn, JObj ?n])]"
  have keys: "js ''rows'' \<noteq> js ''answer''" "js ''rows'' \<noteq> js ''sql''"
    "js ''answer'' \<noteq> js ''rows''" "js ''sql'' \<noteq> js ''rows''"
    "js ''answer'' \<noteq> js ''sql''" "js ''sql'' \<noteq> js ''answer''"
    by (simp_all add: js_def)
  have r1: "own_value ?d1 (js ''rows'') = JArr (map JObj (?xy # []))"
    and r2: "own_value ?d2 (js ''rows'') = JArr (map JObj (?xy # [?x]))"
    and r3: "own_value ?d3 (js ''rows'') = JArr []"
    and r4: "own_value ?d4 (js ''rows'') = JArr (map JObj (?cn # [?n]))"
    using keys by (simp_all add: own_value_def own_property_def)
  have f1: "converts (own_value ?d1 (js ''answer''))" "converts (own_value ?d1 (js ''sql''))"
    and f2: "converts (own_value ?d2 (js ''answer''))" "converts (own_value ?d2 (js ''sql''))"
    and f3: "converts (own_value ?d3 (js ''answer''))" "converts (own_value ?d3 (js ''sql''))"
    and f4: "converts (own_value ?d4 (js ''answer''))" "converts (own_value ?d4 (js ''sql''))"
    using keys by (simp_all add: own_value_def own_property_def converts_simps)
  have cells: "spec_header_cells [js ''x'', js ''y''] = js ''<th>x</th><th>y</th>''"
    "spec_data_rows sample_engine [js ''x'', js ''y''] [?xy] = js ''<tr><td>1</td><td>2</td></tr>''"
    "spec_data_rows sample_engine [js ''x'', js ''y''] [?xy, ?x] =
       js ''<tr><td>1</td><td>2</td></tr><tr><td>3</td><td>undefined</td></tr>''"
    "spec_header_cells [js ''constructor'', js ''n''] = js ''<th>constructor</th><th>n</th>''"
    "spec_data_rows sample_engine [js ''constructor'', js ''n''] [?cn, ?n] =
       js ''<tr><td>c</td><td>1</td></tr><tr><td>function Object() { [native code] }</td><td>2</td></tr>''"
    by code_simp+
  have texts: "\<forall>record \<in> set (?xy # []). \<forall>v \<in> snd ` set record. converts v"
    "\<forall>record \<in> set (?xy # [?x]). \<forall>v \<in> snd ` set record. converts v"
    "\<forall>record \<in> set (?cn # [?n]). \<forall>v \<in> snd ` set record. converts v"
    by (simp_all add: converts_simps)
  have j: "json spec_example = Inr (JObj ?d1)" "json ragged_rows = Inr (JObj ?d2)"
    "json empty_rows = Inr (JObj ?d3)" "json inherited_column = Inr (JObj ?d4)"
    by (simp_all add: spec_example_def ragged_rows_def empty_rows_def inherited_column_def)
  have h: "replies res (ask_request (API_URL local_origin) (trim sample_question)) = Fulfilled res" for res
    by (simp add: replies_def)
  note t1 = table_of_rows [where network = "replies spec_example" and origin = local_origin
      and e = sample_engine and p = sample_page, OF q h ok_spec_example j(1) f1]
  note t2 = table_of_rows [where network = "replies ragged_rows" and origin = local_origin
      and e = sample_engine and p = sample_page, OF q h ok_ragged_rows j(2) f2]
  note t3 = table_of_rows [where network = "replies empty_rows" and origin = local_origin
      and e = sample_engine and p = sample_page, OF q h ok_empty_rows j(3) f3]
  note t4 = table_of_rows [where network = "replies inherited_column" and origin = local_origin
      and e = sample_engine and p = sample_page, OF q h ok_inherited_column j(4) f4]
  from t1 r1 texts(1)
  have "table_innerHTML (fst (script sample_engine local_origin (replies spec_example) sample_question sample_page))
     = table_template (spec_header_cells (own_keys ?xy)) (spec_data_rows sample_engine (own_keys ?xy) (?xy # []))"
    by blast
  then have a: "table_innerHTML (fst (script sample_engine local_origin (replies spec_example) sample_question sample_page))
     = table_template (js ''<th>x</th><th>y</th>'') (js ''<tr><td>1</td><td>2</td></tr>'')"
    by (simp only: own_keys_xy cells)
  from t2 r2 texts(2)
  have "table_innerHTML (fst (script sample_engine local_origin (replies ragged_rows) sample_question sample_page))
     = table_template (spec_header_cells (own_keys ?xy)) (spec_data_rows sample_engine (own_keys ?xy) (?xy # [?x]))"
    by blast
  then have b: "table_innerHTML (fst (script sample_engine local_origin (replies ragged_rows) sample_question sample_page))
     = table_template (js ''<th>x</th><th>y</th>'')
         (js ''<tr><td>1</td><td>2</td></tr><tr><td>3</td><td>undefined</td></tr>'')"
    by (simp only: own_keys_xy cells)
  from t4 r4 texts(3)
  have "table_innerHTML (fst (script sample_engine local_origin (replies inherited_column) sample_question sample_page))
     = table_template (spec_header_cells (own_keys ?cn)) (spec_data_rows sample_engine (own_keys ?cn) (?cn # [?n]))"
    by blast
  then have d: "table_innerHTML (fst (script sample_engine local_origin (replies inherited_column) sample_question sample_page))
     = table_template (js ''<th>constructor</th><th>n</th>'')
         (js ''<tr><td>c</td><td>1</td></tr><tr><td>function Object() { [native code] }</td><td>2</td></tr>'')"
    by (simp only: own_keys_constructor_n cells)
  from t3 r3
  have c: "table_innerHTML (fst (script sample_engine local_origin (replies empty_rows) sample_question sample_page))
     = js ''<p>No data found.</p>''"
    by blast
  from q a b c d ok_spec_example ok_ragged_rows ok_inherited_column ok_empty_rows show ?thesis by blast
qed

text \<open>
  C3 as stated fails twice.  For the single row \<open>{"state":"Punjab","2020":"11"}\<close> the header
  cells are \<open>2020\<close>, \<open>state\<close>, not the keys in backend order.  And for the rows
  \<open>[{"constructor":"c","n":"1"},{"n":"2"}]\<close> the second row, which has no key
  \<open>constructor\<close>, shows under that header the text of the inherited member, neither an
  empty cell nor \<open>undefined\<close>.
\<close>

theorem table_headers_backend_order_counterexample:
  "table_innerHTML (fst (script sample_engine local_origin (replies year_columns) sample_question sample_page))
     = table_template (js ''<th>2020</th><th>state</th>'') (js ''<tr><td>11</td><td>Punjab</td></tr>'') \<and>
   table_innerHTML (fst (script sample_engine local_origin (replies year_columns) sample_question sample_page))
     \<noteq> table_template (js ''<th>state</th><th>2020</th>'') (js ''<tr><td>Punjab</td><td>11</td></tr>'') \<and>
   table_innerHTML (fst (script sample_engine local_origin (replies inherited_column) sample_question sample_page))
     = table_template (js ''<th>constructor</th><th>n</th>'')
         (js ''<tr><td>c</td><td>1</td></tr><tr><td>function Object() { [native code] }</td><td>2</td></tr>'') \<and>
   table_innerHTML (fst (script sample_engine local_origin (replies inherited_column) sample_question sample_page))
     \<noteq> table_template (js ''<th>constructor</th><th>n</th>'')
         (js ''<tr><td>c</td><td>1</td></tr><tr><td>undefined</td><td>2</td></tr>'') \<and>
   table_innerHTML (fst (script sample_engine local_origin (replies inherited_column) sample_question sample_page))
     \<noteq> table_template (js ''<th>constructor</th><th>n</th>'')
         (js ''<tr><td>c</td><td>1</td></tr><tr><td></td><td>2</td></tr>'')"
  using table_year_columns headers_differ table_inherited_column cells_differ by simp







end
